theory Spec2Isabelle
  imports Complex_Main
begin

section \<open>Overview\<close>

text \<open>
  A shallow embedding of the attendance core of a browser application: the two
  backends of the Descriptor Store (face-storage.js over IndexedDB, cloud-storage.js
  over the realtime database), the session token and second-factor checks, date
  validation and marking, and the day-change guard of face-recognition.js, and the
  leave workflow of leave.js.  Definitions follow the source functions and keep their
  names; the theorems state the behaviour the specification claims for them, or what
  the code does instead.
\<close>

section \<open>JavaScript values\<close>

text \<open>
  The attendance application is written in JavaScript.  The values its configuration
  fields, scanned tokens and remote records carry are primitives: \<open>undefined\<close>,
  \<open>null\<close>, booleans, numbers and strings.  Numbers are day, month and year ordinals
  and millisecond time stamps, so integers represent them.  On primitives the strict
  comparison \<open>===\<close> is equality of the datatype below, \<open>!x\<close> is \<open>\<not> truthy x\<close>,
  and a template literal renders a value with \<open>to_str\<close>.
\<close>

datatype jsval = JUndefined | JNull | JBool bool | JNum int | JStr string

fun truthy :: "jsval \<Rightarrow> bool" where
  "truthy JUndefined = False"
| "truthy JNull = False"
| "truthy (JBool b) = b"
| "truthy (JNum n) = (n \<noteq> 0)"
| "truthy (JStr s) = (s \<noteq> [])"

definition digit_char :: "nat \<Rightarrow> char" where
  "digit_char d = ''0123456789'' ! d"

fun show_nat :: "nat \<Rightarrow> string" where
  "show_nat n = (if n < 10 then [digit_char n] else show_nat (n div 10) @ [digit_char (n mod 10)])"

definition show_int :: "int \<Rightarrow> string" where
  "show_int i = (if i < 0 then CHR ''-'' # show_nat (nat (- i)) else show_nat (nat i))"

fun to_str :: "jsval \<Rightarrow> string" where
  "to_str JUndefined = ''undefined''"
| "to_str JNull = ''null''"
| "to_str (JBool b) = (if b then ''true'' else ''false'')"
| "to_str (JNum n) = show_int n"
| "to_str (JStr s) = s"

section \<open>The teaching context held by the recognition system\<close>

text \<open>
  \<open>FaceRecognitionSystem.mainSystemConfig\<close> (face-recognition.js, constructor).
  Every field starts as \<open>null\<close>.
\<close>

record main_config =
  currentDate :: jsval
  selectedSubject :: jsval
  selectedMonth :: jsval
  selectedYear :: jsval
  currentDay :: jsval
  selectedDepartment :: jsval
  selectedCourse :: jsval
  selectedAcademicYear :: jsval
  selectedDivision :: jsval

definition initial_config :: main_config where
  "initial_config = \<lparr> currentDate = JNull, selectedSubject = JNull, selectedMonth = JNull,
     selectedYear = JNull, currentDay = JNull, selectedDepartment = JNull,
     selectedCourse = JNull, selectedAcademicYear = JNull, selectedDivision = JNull \<rparr>"

section \<open>Descriptor Store\<close>

text \<open>
  A stored person record.  A descriptor is a vector of 32-bit floats; its entries are
  kept abstract as reals, and \<open>new Float32Array(d)\<close>, which copies a vector of such
  entries unchanged, is the identity on them.  A record written by the current code
  holds the list \<open>descriptors\<close>; a legacy record holds the single field
  \<open>descriptor\<close> instead.  The division tags are present only on records written by
  the remote backend, and are \<open>undefined\<close> otherwise.
\<close>

type_synonym descriptor_vec = "real list"

record face =
  face_id :: string
  name :: string
  descriptors :: "descriptor_vec list option"
  descriptor :: "descriptor_vec option"
  imageData :: string
  timestamp :: int
  attendanceToday :: bool
  lastSeen :: "int option"
  department :: jsval
  course :: jsval
  academicYear :: jsval
  division :: jsval

text \<open>
  What the modelled code can throw: the remote backend used before its initialization,
  a property read on \<open>undefined\<close>, and a read of the remote database that the
  transport rejects.
\<close>

datatype js_error = NotInitialized | TypeError | RemoteReadFailed

subsection \<open>Local backend: FaceStorage over IndexedDB\<close>

text \<open>
  The object store \<open>faces\<close> has key path \<open>id\<close>: it holds at most one record per
  id, and \<open>put\<close> replaces the record with the same id or adds a new one.  The store
  is the list of its records as \<open>getAll\<close> enumerates them.  The operations modelled
  put only records they have just read, so a put replaces in place; where a record
  with a new id would be enumerated (IndexedDB orders by key) plays no part, and it is
  placed last.
\<close>

type_synonym local_store = "face list"

definition store_get :: "string \<Rightarrow> local_store \<Rightarrow> face option" where
  "store_get k s = find (\<lambda>f. face_id f = k) s"

definition store_put :: "face \<Rightarrow> local_store \<Rightarrow> local_store" where
  "store_put f s =
     (if face_id f \<in> face_id ` set s
      then map (\<lambda>g. if face_id g = face_id f then f else g) s
      else s @ [f])"

text \<open>The format handling shared by \<open>getAllFaces\<close> and \<open>getFace\<close> of FaceStorage.\<close>

definition read_descriptors :: "face \<Rightarrow> descriptor_vec list" where
  "read_descriptors f =
     (case descriptors f of
        Some ds \<Rightarrow> ds
      | None \<Rightarrow> (case descriptor f of Some d \<Rightarrow> [d] | None \<Rightarrow> []))"

definition upgrade :: "face \<Rightarrow> face" where
  "upgrade f = f\<lparr> descriptors := Some (read_descriptors f) \<rparr>"

definition local_getAllFaces :: "local_store \<Rightarrow> face list" where
  "local_getAllFaces s = map upgrade s"

definition local_getFace :: "string \<Rightarrow> local_store \<Rightarrow> face option" where
  "local_getFace studentId s = map_option upgrade (store_get studentId s)"

definition local_markAttendance :: "int \<Rightarrow> string \<Rightarrow> local_store \<Rightarrow> bool \<times> local_store" where
  "local_markAttendance now studentId s =
     (case local_getFace studentId s of
        None \<Rightarrow> (False, s)
      | Some f \<Rightarrow> (True, store_put (f\<lparr> attendanceToday := True, lastSeen := Some now \<rparr>) s))"

definition local_resetAllAttendance :: "local_store \<Rightarrow> local_store" where
  "local_resetAllAttendance s =
     fold (\<lambda>f st. store_put (f\<lparr> attendanceToday := False, lastSeen := None \<rparr>) st)
       (local_getAllFaces s) s"

subsection \<open>Remote backend: CloudStorage over the realtime database\<close>

text \<open>
  cloud-storage.js.  The faces of a division live under the path
  \<open>faces/dept/course/academicYear/division\<close>, one child per student id; the
  database maps a path to its children in key order.  A path with no child reads as
  \<open>null\<close>.  Reads and writes of the database complete; the failures modelled are
  the ones the code raises itself.
\<close>

record cloud_storage =
  isInitialized :: bool
  db :: "string \<Rightarrow> (string \<times> face) list"

definition getDivisionPath :: "main_config \<Rightarrow> string option" where
  "getDivisionPath config =
     (if \<not> truthy (selectedDepartment config) \<or> \<not> truthy (selectedCourse config)
         \<or> \<not> truthy (selectedAcademicYear config) \<or> \<not> truthy (selectedDivision config)
      then None
      else Some (''faces/'' @ to_str (selectedDepartment config) @ ''/''
                 @ to_str (selectedCourse config) @ ''/''
                 @ to_str (selectedAcademicYear config) @ ''/''
                 @ to_str (selectedDivision config)))"

text \<open>\<open>facesRef.once('value')\<close>: the children under the current division path.\<close>

definition faces_val :: "main_config \<Rightarrow> cloud_storage \<Rightarrow> (string \<times> face) list option" where
  "faces_val config cs = map_option (db cs) (getDivisionPath config)"

text \<open>\<open>facesRef.child(studentId).once('value')\<close>.\<close>

definition child_val :: "main_config \<Rightarrow> string \<Rightarrow> cloud_storage \<Rightarrow> face option" where
  "child_val config studentId cs =
     (case faces_val config cs of None \<Rightarrow> None | Some kvs \<Rightarrow> map_of kvs studentId)"

definition cloud_getAllFaces :: "main_config \<Rightarrow> cloud_storage \<Rightarrow> js_error + face list" where
  "cloud_getAllFaces config cs =
     (if \<not> isInitialized cs then Inl NotInitialized
      else case faces_val config cs of
        None \<Rightarrow> Inr []
      | Some facesData \<Rightarrow>
          if facesData = [] then Inr []
          else if list_all (\<lambda>f. descriptors f \<noteq> None) (map snd facesData)
          then Inr (map snd facesData)
          else Inl TypeError)"

definition cloud_getFace :: "main_config \<Rightarrow> string \<Rightarrow> cloud_storage \<Rightarrow> js_error + face option" where
  "cloud_getFace config studentId cs =
     (if \<not> isInitialized cs then Inl NotInitialized
      else case getDivisionPath config of
        None \<Rightarrow> Inr None
      | Some p \<Rightarrow>
          (case child_val config studentId cs of
             None \<Rightarrow> Inr None
           | Some f \<Rightarrow> (if descriptors f = None then Inl TypeError else Inr (Some f))))"

text \<open>\<open>ref.child(k).update(fields)\<close> on the children of one path.\<close>

definition child_update :: "string \<Rightarrow> (face \<Rightarrow> face) \<Rightarrow> (string \<times> face) list \<Rightarrow> (string \<times> face) list" where
  "child_update k g kvs = map (\<lambda>(k', v). if k' = k then (k', g v) else (k', v)) kvs"

definition cloud_markAttendance ::
  "int \<Rightarrow> main_config \<Rightarrow> string \<Rightarrow> cloud_storage \<Rightarrow> js_error + bool \<times> cloud_storage" where
  "cloud_markAttendance now config studentId cs =
     (if \<not> isInitialized cs then Inl NotInitialized
      else case getDivisionPath config of
        None \<Rightarrow> Inr (False, cs)
      | Some p \<Rightarrow>
          (case child_val config studentId cs of
             None \<Rightarrow> Inr (False, cs)
           | Some f \<Rightarrow>
               Inr (True, cs\<lparr> db := (db cs)(p :=
                 child_update studentId (\<lambda>v. v\<lparr> attendanceToday := True, lastSeen := Some now \<rparr>)
                   (db cs p)) \<rparr>)))"

definition cloud_resetAllAttendance :: "main_config \<Rightarrow> cloud_storage \<Rightarrow> js_error + cloud_storage" where
  "cloud_resetAllAttendance config cs =
     (if \<not> isInitialized cs then Inl NotInitialized
      else case getDivisionPath config of
        None \<Rightarrow> Inr cs
      | Some p \<Rightarrow>
          (let facesData = db cs p in
           if facesData = [] then Inr cs
           else Inr (cs\<lparr> db := (db cs)(p :=
                  map (\<lambda>(studentId, v). (studentId, v\<lparr> attendanceToday := False, lastSeen := None \<rparr>))
                    facesData) \<rparr>)))"

subsection \<open>Example stores\<close>

definition face_asha :: face where
  "face_asha = \<lparr> face_id = ''101'', name = ''Asha'', descriptors = Some [[1, 2], [5, 6]],
     descriptor = None, imageData = ''img101'', timestamp = 1000, attendanceToday = True,
     lastSeen = Some 1500, department = JStr ''CS'', course = JStr ''BTech'',
     academicYear = JStr ''2024'', division = JStr ''A'' \<rparr>"

definition face_legacy :: face where
  "face_legacy = \<lparr> face_id = ''102'', name = ''Ravi'', descriptors = None,
     descriptor = Some [3, 4], imageData = ''img102'', timestamp = 900, attendanceToday = True,
     lastSeen = Some 1400, department = JUndefined, course = JUndefined,
     academicYear = JUndefined, division = JUndefined \<rparr>"

definition config_A :: main_config where
  "config_A = \<lparr> currentDate = JNull, selectedSubject = JStr ''Maths'', selectedMonth = JNum 10,
     selectedYear = JNum 2026, currentDay = JNum 5, selectedDepartment = JStr ''CS'',
     selectedCourse = JStr ''BTech'', selectedAcademicYear = JStr ''2024'',
     selectedDivision = JStr ''A'' \<rparr>"

definition cloud_A :: cloud_storage where
  "cloud_A = \<lparr> isInitialized = True,
     db = (\<lambda>p. if p = ''faces/CS/BTech/2024/A'' then [(''101'', face_asha)] else []) \<rparr>"

definition face_meera :: face where
  "face_meera = \<lparr> face_id = ''103'', name = ''Meera'', descriptors = Some [[7, 8]],
     descriptor = None, imageData = ''img103'', timestamp = 1100, attendanceToday = False,
     lastSeen = None, department = JStr ''CS'', course = JStr ''BTech'',
     academicYear = JNum 2024, division = JStr ''A'' \<rparr>"

definition cloud_mixed :: cloud_storage where
  "cloud_mixed = \<lparr> isInitialized = True,
     db = (\<lambda>p. if p = ''faces/CS/BTech/2024/A''
               then [(''101'', face_asha), (''103'', face_meera)] else []) \<rparr>"

definition cloud_legacy :: cloud_storage where
  "cloud_legacy = \<lparr> isInitialized = True,
     db = (\<lambda>p. if p = ''faces/CS/BTech/2024/A''
               then [(''101'', face_asha), (''102'', face_legacy)] else []) \<rparr>"

section \<open>The recognition system\<close>

text \<open>
  face-recognition.js, class \<open>FaceRecognitionSystem\<close>.  \<open>init\<close> assigns the remote
  backend to \<open>this.storage\<close> once \<open>cloudStorage.init()\<close> has succeeded.  Its fallback
  assigns the local backend after \<open>await faceStorage.init()\<close>; the promise of
  \<open>FaceStorage.init\<close> is rejected on an error and never resolved, so the fallback
  does not get as far as the assignment, and a system that has been initialized holds
  the remote backend.
\<close>

datatype storage = LocalStorage local_store | CloudStorage cloud_storage

definition storage_getAllFaces :: "main_config \<Rightarrow> storage \<Rightarrow> js_error + face list" where
  "storage_getAllFaces config st =
     (case st of
        LocalStorage ls \<Rightarrow> Inr (local_getAllFaces ls)
      | CloudStorage cs \<Rightarrow> cloud_getAllFaces config cs)"

definition storage_markAttendance ::
  "int \<Rightarrow> main_config \<Rightarrow> string \<Rightarrow> storage \<Rightarrow> js_error + bool \<times> storage" where
  "storage_markAttendance now config studentId st =
     (case st of
        LocalStorage ls \<Rightarrow>
          (case local_markAttendance now studentId ls of (ok, ls') \<Rightarrow> Inr (ok, LocalStorage ls'))
      | CloudStorage cs \<Rightarrow>
          (case cloud_markAttendance now config studentId cs of
             Inl e \<Rightarrow> Inl e
           | Inr (ok, cs') \<Rightarrow> Inr (ok, CloudStorage cs')))"

definition storage_resetAllAttendance :: "main_config \<Rightarrow> storage \<Rightarrow> js_error + storage" where
  "storage_resetAllAttendance config st =
     (case st of
        LocalStorage ls \<Rightarrow> Inr (LocalStorage (local_resetAllAttendance ls))
      | CloudStorage cs \<Rightarrow>
          (case cloud_resetAllAttendance config cs of
             Inl e \<Rightarrow> Inl e
           | Inr cs' \<Rightarrow> Inr (CloudStorage cs')))"

text \<open>
  \<open>getLabeledDescriptors()\<close> of either backend declares no parameter and reads
  \<open>getAllFaces()\<close> itself; an argument passed to it is discarded, as JavaScript does
  with surplus arguments.  The label packs id and name around a \<open>|\<close>.
\<close>

type_synonym labeled = "string \<times> descriptor_vec list"

definition labeled_of :: "face \<Rightarrow> labeled" where
  "labeled_of f = (face_id f @ ''|'' @ name f, read_descriptors f)"

definition storage_getLabeledDescriptors ::
  "main_config \<Rightarrow> storage \<Rightarrow> face list \<Rightarrow> js_error + labeled list" where
  "storage_getLabeledDescriptors config st surplus_argument =
     (case st of
        LocalStorage ls \<Rightarrow> Inr (map labeled_of (local_getAllFaces ls))
      | CloudStorage cs \<Rightarrow>
          (if \<not> isInitialized cs then Inl NotInitialized
           else case cloud_getAllFaces config cs of
                  Inl e \<Rightarrow> Inl e
                | Inr faces \<Rightarrow> Inr (map labeled_of faces)))"

text \<open>
  \<open>loadFaceMatcher\<close>: the result is the list the matcher is built from, \<open>None\<close>
  when \<open>faceMatcher\<close> is set to \<open>null\<close>.
\<close>

definition loadFaceMatcher :: "main_config \<Rightarrow> storage \<Rightarrow> js_error + labeled list option" where
  "loadFaceMatcher config st =
     (case storage_getAllFaces config st of
        Inl e \<Rightarrow> Inl e
      | Inr allFaces \<Rightarrow>
          (let dept = selectedDepartment config;
               crs = selectedCourse config;
               acYear = selectedAcademicYear config;
               dv = selectedDivision config;
               labeledDescriptors =
                 (if truthy dept \<and> truthy crs \<and> truthy acYear \<and> truthy dv
                  then (let divisionFaces =
                              filter (\<lambda>f. department f = dept \<and> course f = crs
                                         \<and> academicYear f = acYear \<and> division f = dv) allFaces
                        in storage_getLabeledDescriptors config st divisionFaces)
                  else storage_getLabeledDescriptors config st allFaces)
           in case labeledDescriptors of
                Inl e \<Rightarrow> Inl e
              | Inr ld \<Rightarrow> (if ld = [] then Inr None else Inr (Some ld))))"

subsection \<open>State and effects\<close>

text \<open>
  The calls the system makes on its collaborators (the user interface, the console, the
  store, the remote attendance tree) are recorded in order in \<open>effects\<close>.  A refresh
  of the student list or of the statistics is recorded as one effect; what it draws is
  not modelled.  Messages are the source's without their pictographs, a line break
  written \<open>nl\<close>.
\<close>

datatype effect =
    ShowToast string string
  | ConsoleLog string
  | UpdateConfigDisplay
  | UpdateStudentList
  | UpdateStats
  | StorageResetAllAttendance
  | StorageMarkAttendance string
  | StopCamera
  | WatchQRExpiration jsval
  | SaveLocalConfig
  | DetachListeners
  | SetupLiveListeners
  | VerifyDynamicCode string
  | ShowCodeError string
  | ShowCodeSuccess string
  | FirebaseAttendanceUpdate string string jsval

text \<open>
  A suspended run of \<open>handleFirebaseDayChange\<close>: the \<open>await\<close> it is parked at, and
  its \<open>newDay\<close>.
\<close>

datatype await_point =
    AwaitReset | AwaitInnerList | AwaitInnerStats | AwaitHandleDayChange
  | AwaitOuterList | AwaitOuterStats

record face_system =
  mainSystemConfig :: main_config
  userRole :: jsval
  isConnected :: bool
  storage :: storage
  isHandlingDayChange :: bool
  recognizedToday :: "string set"
  lastAttendanceTime :: "string \<Rightarrow> int option"
  currentQRId :: jsval
  isCameraRunning :: bool
  faceMatcher :: "labeled list option"
  cameraButtonEnabled :: bool
  codeSectionShown :: bool
  suspended :: "(await_point \<times> jsval) list"
  effects :: "effect list"

definition nl :: string where
  "nl = [CHR 0x0A]"

definition emit :: "effect \<Rightarrow> face_system \<Rightarrow> face_system" where
  "emit e s = s\<lparr> effects := effects s @ [e] \<rparr>"

definition showToast :: "string \<Rightarrow> string \<Rightarrow> face_system \<Rightarrow> face_system" where
  "showToast message kind s = emit (ShowToast message kind) s"

definition stopCamera :: "face_system \<Rightarrow> face_system" where
  "stopCamera s = emit StopCamera (s\<lparr> isCameraRunning := False \<rparr>)"

definition enableCameraButton :: "face_system \<Rightarrow> face_system" where
  "enableCameraButton s = s\<lparr> cameraButtonEnabled := True, codeSectionShown := False \<rparr>"

definition disableCameraButton :: "face_system \<Rightarrow> face_system" where
  "disableCameraButton s = s\<lparr> cameraButtonEnabled := False \<rparr>"

text \<open>The remote registry of sessions and the single current code, as the reads see them.\<close>

record remote_env =
  activeQRs :: "string \<Rightarrow> int option"
  dynamicCode :: "(jsval \<times> int) option"
  reads_fail :: bool

subsection \<open>Session tokens\<close>

text \<open>
  The object \<open>JSON.parse\<close> yields for a scanned token; a field the token lacks reads
  as \<open>undefined\<close>.  \<open>ParseError\<close> stands for text that is not JSON.
\<close>

record qr_data =
  qrId :: jsval
  qr_department :: jsval
  qr_course :: jsval
  qr_academicYear :: jsval
  qr_division :: jsval
  qr_subject :: jsval
  qr_month :: jsval
  qr_year :: jsval
  qr_day :: jsval

datatype qr_parse = ParseError | Parsed qr_data

text \<open>\<open>ref('mainSystem/activeQRs/' + qrId).once('value')\<close>, the record's \<open>expiresAt\<close>.\<close>

definition read_activeQR :: "remote_env \<Rightarrow> jsval \<Rightarrow> js_error + int option" where
  "read_activeQR env qr = (if reads_fail env then Inl RemoteReadFailed else Inr (activeQRs env (to_str qr)))"

text \<open>
  The class body defines \<open>validateQRSession\<close> twice.  The first definition
  (line 246) checks the connection and catches a failed lookup, returning true
  (fail open).  The second (line 2674) has neither the check nor the
  \<open>try\<close>; being the later method of the same name in the class body, it is the one
  installed on the prototype and the one \<open>handleQRScan\<close> calls.
\<close>

definition validateQRSession_first :: "bool \<Rightarrow> int \<Rightarrow> remote_env \<Rightarrow> jsval \<Rightarrow> bool" where
  "validateQRSession_first live now env qr =
     (if \<not> live then False
      else case read_activeQR env qr of
             Inl e \<Rightarrow> True
           | Inr None \<Rightarrow> False
           | Inr (Some expiresAt) \<Rightarrow> (if now > expiresAt then False else True))"

definition validateQRSession :: "int \<Rightarrow> remote_env \<Rightarrow> jsval \<Rightarrow> js_error + bool" where
  "validateQRSession now env qr =
     (case read_activeQR env qr of
        Inl e \<Rightarrow> Inl e
      | Inr None \<Rightarrow> Inr False
      | Inr (Some expiresAt) \<Rightarrow> (if now > expiresAt then Inr False else Inr True))"

text \<open>Which \<open>return\<close> of \<open>handleQRScan\<close> was taken, named after the toast it shows.\<close>

datatype scan_outcome =
    InvalidFormat | InvalidQRCode | WrongDivision | FirebaseNotConnected | ExpiredOrInvalid
  | CodeRequired | QRAccepted

definition division_text :: "jsval \<Rightarrow> jsval \<Rightarrow> jsval \<Rightarrow> jsval \<Rightarrow> string" where
  "division_text d c y v = to_str d @ ''/'' @ to_str c @ ''/'' @ to_str y @ ''/'' @ to_str v"

definition wrong_division_message :: "qr_data \<Rightarrow> main_config \<Rightarrow> string" where
  "wrong_division_message qrData config =
     ''WRONG DIVISION!'' @ nl @ nl
     @ ''This QR is for: ''
     @ division_text (qr_department qrData) (qr_course qrData) (qr_academicYear qrData)
         (qr_division qrData) @ nl @ nl
     @ ''Your division: ''
     @ division_text (selectedDepartment config) (selectedCourse config)
         (selectedAcademicYear config) (selectedDivision config) @ nl @ nl
     @ ''You can ONLY scan QR codes for YOUR OWN division!''"

definition invalid_format_toast :: "face_system \<Rightarrow> face_system" where
  "invalid_format_toast s = showToast ''Invalid QR code format'' ''danger'' s"

text \<open>
  The part of \<open>handleQRScan\<close> after the token has been validated.  Its last toast
  takes \<open>qrId.substring(0, 8)\<close>, which throws into the \<open>catch\<close> when the id is
  not a string.
\<close>

definition apply_scanned_context :: "qr_data \<Rightarrow> face_system \<Rightarrow> scan_outcome \<times> face_system" where
  "apply_scanned_context qrData s =
     (let s1 = emit (WatchQRExpiration (qrId qrData)) (s\<lparr> currentQRId := qrId qrData \<rparr>);
          c1 = mainSystemConfig s1;
          c2 = (if userRole s1 \<noteq> JStr ''student''
                then c1\<lparr> selectedDepartment := qr_department qrData,
                         selectedCourse := qr_course qrData,
                         selectedAcademicYear := qr_academicYear qrData,
                         selectedDivision := qr_division qrData \<rparr>
                else c1);
          c3 = c2\<lparr> selectedSubject := qr_subject qrData, selectedMonth := qr_month qrData,
                    selectedYear := qr_year qrData, currentDay := qr_day qrData \<rparr>;
          s2 = emit UpdateConfigDisplay (emit SetupLiveListeners (emit DetachListeners
                 (emit SaveLocalConfig (s1\<lparr> mainSystemConfig := c3 \<rparr>))))
      in if userRole s2 = JStr ''student''
         then (CodeRequired,
               showToast (''QR CODE SCANNED!'' @ nl @ nl
                          @ ''Now enter the 4-digit security code from the teacher's screen.'')
                 ''info'' ((disableCameraButton s2)\<lparr> codeSectionShown := True \<rparr>))
         else (let s3 = enableCameraButton s2 in
               case loadFaceMatcher (mainSystemConfig s3) (storage s3) of
                 Inl e \<Rightarrow> (InvalidFormat, invalid_format_toast s3)
               | Inr m \<Rightarrow>
                   (let s4 = emit UpdateStats (emit UpdateStudentList (s3\<lparr> faceMatcher := m \<rparr>)) in
                    case qrId qrData of
                      JStr q \<Rightarrow>
                        (QRAccepted,
                         showToast (''QR CODE ACCEPTED!'' @ nl @ nl @ ''Division: ''
                                    @ division_text (selectedDepartment c3) (selectedCourse c3)
                                        (selectedAcademicYear c3) (selectedDivision c3) @ nl
                                    @ ''Subject: '' @ to_str (qr_subject qrData) @ nl
                                    @ ''QR ID: '' @ take 8 q @ ''...'')
                           ''success'' s4)
                    | _ \<Rightarrow> (InvalidFormat, invalid_format_toast s4))))"

definition handleQRScan ::
  "int \<Rightarrow> remote_env \<Rightarrow> qr_parse \<Rightarrow> face_system \<Rightarrow> scan_outcome \<times> face_system" where
  "handleQRScan now env parsed s =
     (case parsed of
        ParseError \<Rightarrow> (InvalidFormat, invalid_format_toast s)
      | Parsed qrData \<Rightarrow>
          if \<not> truthy (qrId qrData)
          then (InvalidQRCode,
                showToast (''INVALID QR CODE!'' @ nl @ nl
                           @ ''This QR code is outdated or missing required data.'' @ nl @ nl
                           @ ''Please generate a NEW QR code from the main system.'')
                  ''danger'' s)
          else if userRole s = JStr ''student''
                  \<and> (selectedDepartment (mainSystemConfig s) \<noteq> qr_department qrData
                     \<or> selectedCourse (mainSystemConfig s) \<noteq> qr_course qrData
                     \<or> selectedAcademicYear (mainSystemConfig s) \<noteq> qr_academicYear qrData
                     \<or> selectedDivision (mainSystemConfig s) \<noteq> qr_division qrData)
          then (WrongDivision,
                showToast (wrong_division_message qrData (mainSystemConfig s)) ''danger'' s)
          else if \<not> isConnected s
          then (FirebaseNotConnected,
                showToast (''Firebase Not Connected!'' @ nl @ nl
                           @ ''Cannot validate QR code without Firebase.'' @ nl
                           @ ''Please check your internet connection.'')
                  ''danger'' s)
          else (case validateQRSession now env (qrId qrData) of
                  Inl e \<Rightarrow> (InvalidFormat, invalid_format_toast s)
                | Inr isValid \<Rightarrow>
                    if \<not> isValid
                    then (ExpiredOrInvalid,
                          showToast (''QR CODE EXPIRED OR INVALID!'' @ nl @ nl
                                     @ ''This QR code has expired or been replaced.'' @ nl @ nl
                                     @ ''Please scan a NEW QR code.'')
                            ''danger'' s)
                    else apply_scanned_context qrData s))"

subsection \<open>Date validation and marking\<close>

text \<open>The real calendar date, as \<open>new Date()\<close> gives it: day of month, 0-based month, year.\<close>

record calendar_date =
  todayDay :: int
  todayMonth :: int
  todayYear :: int

definition monthNames :: "string list" where
  "monthNames = [''January'', ''February'', ''March'', ''April'', ''May'', ''June'',
     ''July'', ''August'', ''September'', ''October'', ''November'', ''December'']"

definition shortMonthNames :: "string list" where
  "shortMonthNames = [''Jan'', ''Feb'', ''Mar'', ''Apr'', ''May'', ''Jun'',
     ''Jul'', ''Aug'', ''Sep'', ''Oct'', ''Nov'', ''Dec'']"

text \<open>
  \<open>names[month]\<close> inside a template literal, for a month that is a number: the name, or
  \<open>undefined\<close> outside \<open>0..11\<close>.  The context's month is a number or \<open>null\<close>
  (a token carries \<open>month:int\<close>); any other value renders here as \<open>undefined\<close>.
\<close>

definition month_text :: "string list \<Rightarrow> jsval \<Rightarrow> string" where
  "month_text names m =
     (case m of
        JNum i \<Rightarrow> (if 0 \<le> i \<and> i < int (length names) then names ! nat i else ''undefined'')
      | _ \<Rightarrow> ''undefined'')"

definition date_text :: "jsval \<Rightarrow> jsval \<Rightarrow> jsval \<Rightarrow> string" where
  "date_text d m y = to_str d @ '' '' @ month_text monthNames m @ '' '' @ to_str y"

datatype date_validation = Invalid string | Valid jsval jsval jsval string

definition students_today_only_message :: "calendar_date \<Rightarrow> main_config \<Rightarrow> string" where
  "students_today_only_message today config =
     ''STUDENTS CAN ONLY MARK ATTENDANCE FOR TODAY!'' @ nl @ nl
     @ ''Today is: ''
     @ date_text (JNum (todayDay today)) (JNum (todayMonth today)) (JNum (todayYear today)) @ nl
     @ ''Main system shows: ''
     @ date_text (currentDay config) (selectedMonth config) (selectedYear config) @ nl @ nl
     @ ''You can view other dates in the main system, but face recognition only works for today.''"

definition validateDateForRole :: "calendar_date \<Rightarrow> face_system \<Rightarrow> date_validation" where
  "validateDateForRole today s =
     (if \<not> isConnected s
      then Invalid ''Firebase not connected. Please check your connection.''
      else
        (let selectedDay = currentDay (mainSystemConfig s);
             selMonth = selectedMonth (mainSystemConfig s);
             selYear = selectedYear (mainSystemConfig s)
         in if selectedDay = JNull \<or> selMonth = JNull \<or> selYear = JNull
            then Invalid ''Please select a date in the main system first!''
            else if userRole s = JStr ''student''
            then (if selectedDay \<noteq> JNum (todayDay today) \<or> selMonth \<noteq> JNum (todayMonth today)
                     \<or> selYear \<noteq> JNum (todayYear today)
                  then Invalid (students_today_only_message today (mainSystemConfig s))
                  else Valid (JNum (todayDay today)) (JNum (todayMonth today)) (JNum (todayYear today))
                         (''Marking attendance for TODAY (''
                          @ date_text (JNum (todayDay today)) (JNum (todayMonth today))
                              (JNum (todayYear today)) @ '')''))
            else Valid selectedDay selMonth selYear
                   (''Marking attendance for: '' @ date_text selectedDay selMonth selYear)))"

definition ATTENDANCE_COOLDOWN :: int where
  "ATTENDANCE_COOLDOWN = 3000"

text \<open>
  \<open>saveAttendanceToFirebase\<close>: the write of \<open>Present\<close> into the remote attendance
  tree is recorded as an effect (student id, name and day); its path text and its
  timeout, whose outcome the caller never sees, are not modelled.
\<close>

definition saveAttendanceToFirebase ::
  "string \<Rightarrow> string \<Rightarrow> jsval \<Rightarrow> face_system \<Rightarrow> face_system" where
  "saveAttendanceToFirebase studentId studentName targetDay s =
     (let config = mainSystemConfig s in
      if \<not> isConnected s then s
      else if \<not> truthy (selectedSubject config) \<or> selectedMonth config = JNull
              \<or> selectedYear config = JNull then s
      else if \<not> truthy (selectedDepartment config) \<or> \<not> truthy (selectedCourse config)
              \<or> \<not> truthy (selectedAcademicYear config) \<or> \<not> truthy (selectedDivision config)
      then s
      else emit (FirebaseAttendanceUpdate studentId studentName targetDay) s)"

definition markAttendanceWithCooldown ::
  "int \<Rightarrow> calendar_date \<Rightarrow> string \<Rightarrow> string \<Rightarrow> face_system \<Rightarrow> js_error + face_system" where
  "markAttendanceWithCooldown now today studentId studentName s =
     (let lastTime = (case lastAttendanceTime s studentId of None \<Rightarrow> 0 | Some t \<Rightarrow> t) in
      if now - lastTime < ATTENDANCE_COOLDOWN then Inr s
      else case validateDateForRole today s of
        Invalid message \<Rightarrow>
          Inr (stopCamera (showToast (''Date validation failed!'' @ nl @ message @ nl @ nl
                                      @ ''Camera stopped.'') ''danger'' s))
      | Valid targetDay targetMonth targetYear message \<Rightarrow>
          (case storage_markAttendance now (mainSystemConfig s) studentId (storage s) of
             Inl e \<Rightarrow> Inl e
           | Inr (success, st') \<Rightarrow>
               (let s1 = emit (StorageMarkAttendance studentId) (s\<lparr> storage := st' \<rparr>) in
                if \<not> success then Inr s1
                else
                  (let s2 = s1\<lparr> lastAttendanceTime := (lastAttendanceTime s1)(studentId \<mapsto> now) \<rparr>;
                       s3 = (if studentId \<in> recognizedToday s2 then s2
                             else emit UpdateStudentList
                                    (showToast (''Attendance marked for '' @ studentName @ nl
                                                @ ''Date: '' @ to_str targetDay @ '' ''
                                                @ month_text shortMonthNames targetMonth)
                                       ''success''
                                       (s2\<lparr> recognizedToday := insert studentId (recognizedToday s2) \<rparr>)))
                   in Inr (saveAttendanceToFirebase studentId studentName targetDay s3)))))"

subsection \<open>The second factor\<close>









text \<open>No call of \<open>storage.markAttendance\<close> among a list of effects.\<close>

definition is_mark_call :: "effect \<Rightarrow> bool" where
  "is_mark_call e = (case e of StorageMarkAttendance studentId \<Rightarrow> True | _ \<Rightarrow> False)"

subsection \<open>Day change\<close>

text \<open>
  \<open>updateStudentList\<close> and \<open>updateStats\<close> both open with
  \<open>await this.storage.getAllFaces()\<close>, outside any \<open>try\<close>: a read that throws ends
  them with its exception.  With the live connection up and day, month, year and subject
  set, they return before drawing anything when a division field is missing.  Otherwise
  they draw; in the day-change run \<open>UpdateStudentList\<close> and \<open>UpdateStats\<close> record a
  refresh that was drawn.  The read of the attendance tree in between sits in a \<open>try\<close>
  of its own and decides only which badge a student gets.
\<close>

definition missing_config :: "main_config \<Rightarrow> bool \<Rightarrow> bool" where
  "missing_config config live =
     (live \<and> truthy (currentDay config)
      \<and> selectedMonth config \<noteq> JNull \<and> selectedMonth config \<noteq> JUndefined
      \<and> truthy (selectedYear config) \<and> truthy (selectedSubject config)
      \<and> \<not> (truthy (selectedDepartment config) \<and> truthy (selectedCourse config)
             \<and> truthy (selectedAcademicYear config) \<and> truthy (selectedDivision config)))"

definition updateStudentList :: "face_system \<Rightarrow> js_error + face_system" where
  "updateStudentList s =
     (case storage_getAllFaces (mainSystemConfig s) (storage s) of
        Inl e \<Rightarrow> Inl e
      | Inr faces \<Rightarrow>
          if missing_config (mainSystemConfig s) (isConnected s) then Inr s
          else Inr (emit UpdateStudentList s))"

definition updateStats :: "face_system \<Rightarrow> js_error + face_system" where
  "updateStats s =
     (case storage_getAllFaces (mainSystemConfig s) (storage s) of
        Inl e \<Rightarrow> Inl e
      | Inr faces \<Rightarrow>
          if missing_config (mainSystemConfig s) (isConnected s) then Inr s
          else Inr (emit UpdateStats s))"

text \<open>
  \<open>handleFirebaseDayChange\<close> is an \<open>async\<close> function on a single thread.  Its code up
  to the first \<open>await\<close> runs when a notification arrives: the guard test, the update
  of \<open>currentDay\<close>, and for a real change the setting of the guard, the clearing of
  the in-memory sets (once there and once more at the start of \<open>handleDayChange\<close>)
  and the call of \<open>storage.resetAllAttendance()\<close>.  The run is then parked;
  \<open>resume\<close> continues the oldest parked run, with the outcome of what it awaited, up
  to its next \<open>await\<close>.  The store is written when the awaited reset completes.
  An exception inside \<open>handleDayChange\<close> is caught there: the failure toast is shown
  and \<open>handleDayChange\<close> returns normally.  An exception of the two refreshes that
  follow it is caught in \<open>handleFirebaseDayChange\<close>, whose \<open>finally\<close> clears the
  guard.  \<open>oldDay\<close>, which the function only logs, is left out.
\<close>

definition handleFirebaseDayChange :: "jsval \<Rightarrow> face_system \<Rightarrow> face_system" where
  "handleFirebaseDayChange newDay s =
     (if isHandlingDayChange s
      then emit (ConsoleLog ''Already handling day change, skipping...'') s
      else
        (let previousDay = currentDay (mainSystemConfig s);
             s1 = emit UpdateConfigDisplay
                    (s\<lparr> mainSystemConfig := (mainSystemConfig s)\<lparr> currentDay := newDay \<rparr> \<rparr>)
         in if newDay \<noteq> JNull \<and> newDay \<noteq> JUndefined \<and> newDay \<noteq> previousDay
            then emit StorageResetAllAttendance
                   (s1\<lparr> isHandlingDayChange := True, recognizedToday := {},
                        lastAttendanceTime := (\<lambda>k. None),
                        suspended := suspended s1 @ [(AwaitReset, newDay)] \<rparr>)
            else s1))"

definition day_changed_toast :: "calendar_date \<Rightarrow> jsval \<Rightarrow> face_system \<Rightarrow> face_system" where
  "day_changed_toast today newDay s =
     (if userRole s = JStr ''student''
      then (if newDay \<noteq> JNum (todayDay today)
            then showToast (''Day changed to Day '' @ to_str newDay @ nl @ nl
                            @ ''NOTE: As a student, you can VIEW this date,'' @ nl
                            @ ''but face recognition ONLY works for TODAY (Day ''
                            @ show_int (todayDay today) @ '')'') ''info'' s
            else showToast (''Day changed to TODAY (Day '' @ to_str newDay
                            @ ''). Attendance cleared!'') ''info'' s)
      else showToast (''Day changed to Day '' @ to_str newDay @ ''. Attendance cleared!'')
             ''info'' s)"

text \<open>The two \<open>catch\<close> blocks.\<close>

definition reset_failed :: "jsval \<Rightarrow> (await_point \<times> jsval) list \<Rightarrow> face_system \<Rightarrow> face_system" where
  "reset_failed newDay rest s =
     showToast ''Failed to reset attendance for new day'' ''danger''
       (s\<lparr> suspended := (AwaitHandleDayChange, newDay) # rest \<rparr>)"

definition day_change_failed :: "(await_point \<times> jsval) list \<Rightarrow> face_system \<Rightarrow> face_system" where
  "day_change_failed rest s =
     (showToast ''Failed to handle day change'' ''danger'' (s\<lparr> suspended := rest \<rparr>))
       \<lparr> isHandlingDayChange := False \<rparr>"

definition resume :: "calendar_date \<Rightarrow> face_system \<Rightarrow> face_system" where
  "resume today s =
     (case suspended s of
        [] \<Rightarrow> s
      | (point, newDay) # rest \<Rightarrow>
          (case point of
             AwaitReset \<Rightarrow>
               (case storage_resetAllAttendance (mainSystemConfig s) (storage s) of
                  Inr st' \<Rightarrow> s\<lparr> storage := st', suspended := (AwaitInnerList, newDay) # rest \<rparr>
                | Inl e \<Rightarrow> reset_failed newDay rest s)
           | AwaitInnerList \<Rightarrow>
               (case updateStudentList s of
                  Inr s' \<Rightarrow> s'\<lparr> suspended := (AwaitInnerStats, newDay) # rest \<rparr>
                | Inl e \<Rightarrow> reset_failed newDay rest s)
           | AwaitInnerStats \<Rightarrow>
               (case updateStats s of
                  Inr s' \<Rightarrow>
                    showToast (''Day changed to Day '' @ to_str newDay @ ''. Attendance reset.'') ''info''
                      (s'\<lparr> suspended := (AwaitHandleDayChange, newDay) # rest \<rparr>)
                | Inl e \<Rightarrow> reset_failed newDay rest s)
           | AwaitHandleDayChange \<Rightarrow> s\<lparr> suspended := (AwaitOuterList, newDay) # rest \<rparr>
           | AwaitOuterList \<Rightarrow>
               (case updateStudentList s of
                  Inr s' \<Rightarrow> s'\<lparr> suspended := (AwaitOuterStats, newDay) # rest \<rparr>
                | Inl e \<Rightarrow> day_change_failed rest s)
           | AwaitOuterStats \<Rightarrow>
               (case updateStats s of
                  Inr s' \<Rightarrow>
                    (day_changed_toast today newDay (s'\<lparr> suspended := rest \<rparr>))
                      \<lparr> isHandlingDayChange := False \<rparr>
                | Inl e \<Rightarrow> day_change_failed rest s)))"


definition one_notification :: "calendar_date \<Rightarrow> jsval \<Rightarrow> face_system \<Rightarrow> face_system" where
  "one_notification today d1 s = (resume today ^^ 6) (handleFirebaseDayChange d1 s)"

text \<open>The console line of a dropped notification, and the effects a run adds to a state.\<close>

definition skip_log :: effect where
  "skip_log = ConsoleLog ''Already handling day change, skipping...''"

definition new_effects :: "face_system \<Rightarrow> face_system \<Rightarrow> effect list" where
  "new_effects s s' = drop (length (effects s)) (effects s')"

text \<open>
  How often one handled day change draws the student list (and the statistics): once
  inside \<open>handleDayChange\<close> and once more in \<open>handleFirebaseDayChange\<close> after it,
  when the reset succeeds, the faces of the store can then be read and no division
  field is missing; not at all otherwise.
\<close>

definition refreshes_per_change :: "main_config \<Rightarrow> bool \<Rightarrow> storage \<Rightarrow> nat" where
  "refreshes_per_change config live st =
     (case storage_resetAllAttendance config st of
        Inl e \<Rightarrow> 0
      | Inr st' \<Rightarrow>
          (case storage_getAllFaces config st' of
             Inl e \<Rightarrow> 0
           | Inr faces \<Rightarrow> if missing_config config live then 0 else 2))"

text \<open>
  A run parked at an \<open>await\<close>, alone, with the guard set, over a given teaching
  context, connection and store; and a run that has ended.
\<close>

definition parked ::
  "await_point \<Rightarrow> jsval \<Rightarrow> main_config \<Rightarrow> bool \<Rightarrow> storage \<Rightarrow> face_system \<Rightarrow> bool" where
  "parked point d config live st s =
     (suspended s = [(point, d)] \<and> isHandlingDayChange s \<and> mainSystemConfig s = config
      \<and> isConnected s = live \<and> storage s = st)"

definition ended :: "main_config \<Rightarrow> face_system \<Rightarrow> bool" where
  "ended config s = (suspended s = [] \<and> \<not> isHandlingDayChange s \<and> mainSystemConfig s = config)"

subsection \<open>Example systems and tokens\<close>

definition config_student :: main_config where
  "config_student = initial_config\<lparr> selectedDepartment := JStr ''CS'', selectedCourse := JStr ''BTech'',
     selectedAcademicYear := JStr ''2024'', selectedDivision := JStr ''A'' \<rparr>"

definition sys_student :: face_system where
  "sys_student = \<lparr> mainSystemConfig = config_student, userRole = JStr ''student'',
     isConnected = True, storage = CloudStorage cloud_A,
     isHandlingDayChange = False, recognizedToday = {}, lastAttendanceTime = (\<lambda>k. None),
     currentQRId = JNull, isCameraRunning = False, faceMatcher = None,
     cameraButtonEnabled = False, codeSectionShown = False, suspended = [], effects = [] \<rparr>"

definition sys_teacher :: face_system where
  "sys_teacher = sys_student\<lparr> userRole := JStr ''teacher'', cameraButtonEnabled := True \<rparr>"

definition token_A :: qr_data where
  "token_A = \<lparr> qrId = JStr ''q1'', qr_department = JStr ''CS'', qr_course = JStr ''BTech'',
     qr_academicYear = JStr ''2024'', qr_division = JStr ''A'', qr_subject = JStr ''Maths'',
     qr_month = JNum 10, qr_year = JNum 2026, qr_day = JNum 12 \<rparr>"

definition token_B :: qr_data where
  "token_B = token_A\<lparr> qr_division := JStr ''B'' \<rparr>"

definition env_live :: remote_env where
  "env_live = \<lparr> activeQRs = (\<lambda>k. if k = ''q1'' then Some 5000 else None),
     dynamicCode = Some (JStr ''4821'', 5000), reads_fail = False \<rparr>"

definition env_failing :: remote_env where
  "env_failing = env_live\<lparr> reads_fail := True \<rparr>"

definition sys_day5 :: face_system where
  "sys_day5 = sys_teacher\<lparr> mainSystemConfig := config_A \<rparr>"

definition sys_day5_unreadable :: face_system where
  "sys_day5_unreadable = sys_day5\<lparr> storage := CloudStorage cloud_legacy \<rparr>"

definition today_12 :: calendar_date where
  "today_12 = \<lparr> todayDay = 12, todayMonth = 10, todayYear = 2026 \<rparr>"

definition sys_student_day5 :: face_system where
  "sys_student_day5 = sys_student\<lparr> mainSystemConfig := config_A \<rparr>"


section \<open>Leave Workflow\<close>

text \<open>
  leave.js.  A leave application is a JSON object: a map from field names to values,
  a value being a primitive or, for \<open>days\<close>, the list of days of the month spanned.
  The applications of a division are the children of its \<open>leaveApplications\<close> path
  in the remote database, or, without the remote database, the single object stored
  under the key \<open>leaveApplications\<close> of the local database.  \<open>confirm\<close> is the
  user's answer to the confirmation dialog, \<open>user\<close> the e-mail of the current user
  (\<open>None\<close> when \<open>getCurrentUser\<close> fails).  Alerts are recorded in order.
\<close>

datatype field_value = Prim jsval | DayList "int list"

type_synonym obj = "string \<Rightarrow> field_value option"

record app_state =
  app_selectedDepartment :: jsval
  app_selectedCourse :: jsval
  app_selectedAcademicYear :: jsval
  app_selectedDivision :: jsval
  app_selectedMonth :: jsval
  app_selectedYear :: jsval
  app_selectedSubject :: jsval

record leave_system =
  appState :: app_state
  useCloud :: bool
  firebaseLeaves :: "string \<Rightarrow> (string \<times> obj) list"
  dbReady :: bool
  localLeaves :: "(string \<times> obj) list option"
  applications :: "obj list"
  alerts :: "string list"

definition showAlert :: "string \<Rightarrow> leave_system \<Rightarrow> leave_system" where
  "showAlert message st = st\<lparr> alerts := alerts st @ [message] \<rparr>"

definition getLeaveApplicationsPath :: "leave_system \<Rightarrow> string option" where
  "getLeaveApplicationsPath st =
     (let a = appState st in
      if \<not> truthy (app_selectedYear a) \<or> \<not> truthy (app_selectedDepartment a)
         \<or> \<not> truthy (app_selectedCourse a) \<or> \<not> truthy (app_selectedAcademicYear a)
         \<or> \<not> truthy (app_selectedDivision a)
      then None
      else Some (''mainSystem/attendanceData/'' @ to_str (app_selectedYear a) @ ''/''
                 @ to_str (app_selectedDepartment a) @ ''/'' @ to_str (app_selectedCourse a) @ ''/''
                 @ to_str (app_selectedAcademicYear a) @ ''/'' @ to_str (app_selectedDivision a)
                 @ ''/leaveApplications''))"

text \<open>\<open>loadFromDatabase('leaveApplications') || {}\<close> and \<open>saveToDatabase\<close>.\<close>

definition loadLocalLeaves :: "leave_system \<Rightarrow> (string \<times> obj) list" where
  "loadLocalLeaves st =
     (if \<not> dbReady st then [] else (case localLeaves st of None \<Rightarrow> [] | Some l \<Rightarrow> l))"

definition saveLocalLeaves :: "(string \<times> obj) list \<Rightarrow> leave_system \<Rightarrow> leave_system" where
  "saveLocalLeaves l st = (if \<not> dbReady st then st else st\<lparr> localLeaves := Some l \<rparr>)"

text \<open>The applications as \<open>loadLeaveApplications\<close> reads them for a path.\<close>

definition stored_leaves :: "string \<Rightarrow> leave_system \<Rightarrow> (string \<times> obj) list" where
  "stored_leaves p st = (if useCloud st then firebaseLeaves st p else loadLocalLeaves st)"

text \<open>
  The list is sorted by \<open>b.submittedAt - a.submittedAt\<close>, newest first; the sort is
  stable.  Every application \<open>submitLeaveApplication\<close> writes carries a numeric
  \<open>submittedAt\<close>; a missing or non-numeric one counts as 0 here.
\<close>

definition submittedAt_of :: "obj \<Rightarrow> int" where
  "submittedAt_of l = (case l ''submittedAt'' of Some (Prim (JNum n)) \<Rightarrow> n | _ \<Rightarrow> 0)"

definition loadLeaveApplications :: "leave_system \<Rightarrow> leave_system" where
  "loadLeaveApplications st =
     (case getLeaveApplicationsPath st of
        None \<Rightarrow> st\<lparr> applications := [] \<rparr>
      | Some p \<Rightarrow>
          st\<lparr> applications :=
                sort_key (\<lambda>l. - submittedAt_of l)
                  (map (\<lambda>(k, v). [''id'' \<mapsto> Prim (JStr k)] ++ v) (stored_leaves p st)) \<rparr>)"

definition find_application :: "string \<Rightarrow> leave_system \<Rightarrow> obj option" where
  "find_application leaveId st = find (\<lambda>l. l ''id'' = Some (Prim (JStr leaveId))) (applications st)"

text \<open>
  \<open>ref(path + '/' + leaveId).update(fields)\<close> merges the fields into the child, which
  it creates when absent; \<open>remove()\<close> deletes the child.  The local object is changed
  only where it has the key.
\<close>

definition child_merge :: "string \<Rightarrow> obj \<Rightarrow> (string \<times> obj) list \<Rightarrow> (string \<times> obj) list" where
  "child_merge k flds kvs = map (\<lambda>(k', v). if k' = k then (k', v ++ flds) else (k', v)) kvs"

definition firebase_update :: "string \<Rightarrow> obj \<Rightarrow> (string \<times> obj) list \<Rightarrow> (string \<times> obj) list" where
  "firebase_update k flds kvs =
     (if k \<in> fst ` set kvs then child_merge k flds kvs else kvs @ [(k, flds)])"


definition write_status_update :: "string \<Rightarrow> string \<Rightarrow> obj \<Rightarrow> leave_system \<Rightarrow> leave_system" where
  "write_status_update p leaveId updates st =
     (if useCloud st
      then st\<lparr> firebaseLeaves := (firebaseLeaves st)(p := firebase_update leaveId updates
                                                           (firebaseLeaves st p)) \<rparr>
      else (let allLeaves = loadLocalLeaves st in
            if leaveId \<in> fst ` set allLeaves
            then saveLocalLeaves (child_merge leaveId updates allLeaves) st
            else st))"

fun join_commas :: "string list \<Rightarrow> string" where
  "join_commas [] = []"
| "join_commas [x] = x"
| "join_commas (x # y # zs) = x @ '','' @ join_commas (y # zs)"

definition field_text :: "obj \<Rightarrow> string \<Rightarrow> string" where
  "field_text l k =
     (case l k of
        None \<Rightarrow> ''undefined''
      | Some (Prim v) \<Rightarrow> to_str v
      | Some (DayList ds) \<Rightarrow> join_commas (map show_int ds))"



definition rejectLeave ::
  "int \<Rightarrow> string option \<Rightarrow> bool \<Rightarrow> string \<Rightarrow> leave_system \<Rightarrow> leave_system" where
  "rejectLeave now user confirm leaveId st =
     (case find_application leaveId st of
        None \<Rightarrow> showAlert ''Leave application not found'' st
      | Some leave \<Rightarrow>
          if \<not> confirm then st
          else
            (let rejectedBy = (case user of Some email \<Rightarrow> email | None \<Rightarrow> ''unknown'') in
             case getLeaveApplicationsPath st of
               None \<Rightarrow> showAlert ''Cannot reject leave: division context incomplete'' st
             | Some p \<Rightarrow>
                 showAlert (''Leave rejected for '' @ field_text leave ''studentName'')
                   (loadLeaveApplications
                     (write_status_update p leaveId
                        [''status'' \<mapsto> Prim (JStr ''rejected''),
                         ''rejectedBy'' \<mapsto> Prim (JStr rejectedBy),
                         ''rejectedAt'' \<mapsto> Prim (JNum now)] st))))"


text \<open>
  The buttons \<open>renderLeaveTable\<close> puts in the row of an application: approve and reject
  on a pending one, delete on any other.
\<close>

datatype leave_button = ApproveButton | RejectButton | DeleteButton

definition actionButtons :: "obj \<Rightarrow> leave_button list" where
  "actionButtons leave =
     (if leave ''status'' = Some (Prim (JStr ''pending'')) then [ApproveButton, RejectButton]
      else [DeleteButton])"

text \<open>The stored application with a given id, under the current path.\<close>

definition stored_application :: "string \<Rightarrow> leave_system \<Rightarrow> obj option" where
  "stored_application leaveId st =
     (case getLeaveApplicationsPath st of
        None \<Rightarrow> None
      | Some p \<Rightarrow> map_of (stored_leaves p st) leaveId)"

subsection \<open>Example leave applications\<close>

definition leave_pending :: obj where
  "leave_pending = [''studentId'' \<mapsto> Prim (JStr ''101''), ''studentName'' \<mapsto> Prim (JStr ''Asha''),
     ''fromDate'' \<mapsto> Prim (JStr ''2026-11-03''), ''toDate'' \<mapsto> Prim (JStr ''2026-11-05''),
     ''days'' \<mapsto> DayList [3, 4, 5], ''month'' \<mapsto> Prim (JNum 10), ''year'' \<mapsto> Prim (JNum 2026),
     ''reason'' \<mapsto> Prim (JStr ''fever''), ''status'' \<mapsto> Prim (JStr ''pending''),
     ''submittedBy'' \<mapsto> Prim (JStr ''t@x.org''), ''submittedAt'' \<mapsto> Prim (JNum 1000)]"

definition leave_app_state :: app_state where
  "leave_app_state = \<lparr> app_selectedDepartment = JStr ''CS'', app_selectedCourse = JStr ''BTech'',
     app_selectedAcademicYear = JStr ''2024'', app_selectedDivision = JStr ''A'',
     app_selectedMonth = JNum 10, app_selectedYear = JNum 2026,
     app_selectedSubject = JStr ''Maths'' \<rparr>"

definition leave_path :: string where
  "leave_path = ''mainSystem/attendanceData/2026/CS/BTech/2024/A/leaveApplications''"

definition leave_sys :: leave_system where
  "leave_sys = loadLeaveApplications
     \<lparr> appState = leave_app_state, useCloud = True,
       firebaseLeaves = (\<lambda>p. if p = leave_path then [(''leave_1000'', leave_pending)] else []),
       dbReady = True, localLeaves = None, applications = [], alerts = [] \<rparr>"

text \<open>
  The page holds no listener on the leave applications: its list changes only when
  \<open>loadLeaveApplications\<close> runs.  Here another client has approved the application
  since this page loaded it.
\<close>

definition leave_approved :: obj where
  "leave_approved = leave_pending ++ [''status'' \<mapsto> Prim (JStr ''approved''),
     ''approvedBy'' \<mapsto> Prim (JStr ''hod@x.org''), ''approvedAt'' \<mapsto> Prim (JNum 5000)]"

definition leave_sys_stale :: leave_system where
  "leave_sys_stale = leave_sys\<lparr> firebaseLeaves :=
     (\<lambda>p. if p = leave_path then [(''leave_1000'', leave_approved)] else []) \<rparr>"

section \<open>Properties of the Descriptor Store\<close>

lemma find_face_id: "find (\<lambda>f. face_id f = k) s = Some f \<Longrightarrow> face_id f = k"
  by (induction s) (auto split: if_splits)

lemma store_get_None_iff: "store_get k s = None \<longleftrightarrow> k \<notin> face_id ` set s"
  unfolding store_get_def by (induction s) auto

lemma store_get_map_replace:
  "k \<in> face_id ` set s \<Longrightarrow> face_id f' = k \<Longrightarrow>
   store_get k (map (\<lambda>g. if face_id g = k then f' else g) s) = Some f'"
  unfolding store_get_def by (induction s) auto

lemma store_get_put_same: "store_get (face_id f) (store_put f s) = Some f"
  unfolding store_put_def
  by (auto simp: store_get_map_replace) (induction s, auto simp: store_get_def)

lemma store_get_distinct:
  "distinct (map face_id s) \<Longrightarrow> f \<in> set s \<Longrightarrow> store_get (face_id f) s = Some f"
  unfolding store_get_def by (induction s) auto

lemma map_of_child_update:
  "map_of (child_update k g kvs) k' =
     (if k' = k then map_option g (map_of kvs k) else map_of kvs k')"
  unfolding child_update_def by (induction kvs) auto

lemma store_put_at:
  "face_id f' = face_id y \<Longrightarrow> face_id y \<notin> face_id ` set pre \<Longrightarrow>
   face_id y \<notin> face_id ` set ys \<Longrightarrow> store_put f' (pre @ y # ys) = pre @ f' # ys"
  unfolding store_put_def by (auto simp: image_iff intro!: map_idI)

lemma fold_store_put:
  "distinct (map face_id (pre @ ys)) \<Longrightarrow> (\<And>f. face_id (g f) = face_id f) \<Longrightarrow>
   fold (\<lambda>f st. store_put (g f) st) ys (pre @ ys) = pre @ map g ys"
proof (induction ys arbitrary: pre)
  case Nil
  then show ?case by simp
next
  case (Cons y ys)
  have d: "face_id y \<notin> face_id ` set pre" "face_id y \<notin> face_id ` set ys"
    using Cons.prems(1) by auto
  have "store_put (g y) (pre @ y # ys) = (pre @ [g y]) @ ys"
    using store_put_at[of "g y" y pre ys] d Cons.prems(2) by simp
  moreover have "distinct (map face_id ((pre @ [g y]) @ ys))"
    using Cons.prems by auto
  ultimately show ?case
    using Cons.IH[of "pre @ [g y]"] Cons.prems(2) by simp
qed

lemma path_A: "getDivisionPath config_A = Some ''faces/CS/BTech/2024/A''"
  by (simp add: getDivisionPath_def config_A_def)

lemma example_face_ids: "face_id face_asha = ''101''" "face_id face_legacy = ''102''"
  by (simp_all add: face_asha_def face_legacy_def)

text \<open>
  Claim C7.  \<open>markAttendance(id)\<close> returns false and changes nothing when no record
  with that id exists.  When one exists it returns true, and the record read back
  afterwards is the record read before with \<open>attendanceToday\<close> set to true and
  \<open>lastSeen\<close> set to the current time.  This holds for the local backend, and for
  the remote backend once it is initialized, where the records looked up are those of
  the current division path.
\<close>

theorem markAttendance_contract:
  assumes "isInitialized cs"
  shows "(studentId \<notin> face_id ` set s \<longrightarrow> local_markAttendance now studentId s = (False, s))
    \<and> (studentId \<in> face_id ` set s \<longrightarrow>
          fst (local_markAttendance now studentId s) = True
        \<and> local_getFace studentId (snd (local_markAttendance now studentId s))
            = map_option (\<lambda>f. f\<lparr> attendanceToday := True, lastSeen := Some now \<rparr>)
                (local_getFace studentId s)
        \<and> local_getFace studentId s \<noteq> None)
    \<and> (child_val config studentId cs = None \<longrightarrow>
          cloud_markAttendance now config studentId cs = Inr (False, cs))
    \<and> (child_val config studentId cs \<noteq> None \<longrightarrow>
          (\<exists>cs'. cloud_markAttendance now config studentId cs = Inr (True, cs')
             \<and> child_val config studentId cs'
                = map_option (\<lambda>f. f\<lparr> attendanceToday := True, lastSeen := Some now \<rparr>)
                    (child_val config studentId cs)))"
proof (intro conjI impI)
  assume "studentId \<notin> face_id ` set s"
  then have "store_get studentId s = None" by (simp add: store_get_None_iff)
  then show "local_markAttendance now studentId s = (False, s)"
    by (simp add: local_markAttendance_def local_getFace_def)
next
  assume a: "studentId \<in> face_id ` set s"
  then obtain f where f: "store_get studentId s = Some f"
    using store_get_None_iff by (cases "store_get studentId s") auto
  then have fid: "face_id f = studentId" unfolding store_get_def by (rule find_face_id)
  let ?m = "(upgrade f)\<lparr> attendanceToday := True, lastSeen := Some now \<rparr>"
  have res: "local_markAttendance now studentId s = (True, store_put ?m s)"
    using f by (simp add: local_markAttendance_def local_getFace_def)
  show "fst (local_markAttendance now studentId s) = True" by (simp add: res)
  have mid: "face_id ?m = studentId" using fid by (simp add: upgrade_def)
  have "store_get studentId (store_put ?m s) = Some ?m"
    using store_get_put_same[of ?m s] mid by simp
  moreover have "upgrade ?m = ?m" by (simp add: upgrade_def read_descriptors_def)
  ultimately show "local_getFace studentId (snd (local_markAttendance now studentId s))
            = map_option (\<lambda>f. f\<lparr> attendanceToday := True, lastSeen := Some now \<rparr>)
                (local_getFace studentId s)"
    using f by (simp add: res local_getFace_def)
  show "local_getFace studentId s \<noteq> None" using f by (simp add: local_getFace_def)
next
  assume "child_val config studentId cs = None"
  then show "cloud_markAttendance now config studentId cs = Inr (False, cs)"
    using assms by (simp add: cloud_markAttendance_def split: option.splits)
next
  assume a: "child_val config studentId cs \<noteq> None"
  then obtain f where f: "child_val config studentId cs = Some f" by auto
  then obtain p where p: "getDivisionPath config = Some p"
    and mf: "map_of (db cs p) studentId = Some f"
    by (auto simp: child_val_def faces_val_def split: option.splits)
  show "\<exists>cs'. cloud_markAttendance now config studentId cs = Inr (True, cs')
             \<and> child_val config studentId cs'
                = map_option (\<lambda>f. f\<lparr> attendanceToday := True, lastSeen := Some now \<rparr>)
                    (child_val config studentId cs)"
    using assms f p mf
    by (simp add: cloud_markAttendance_def child_val_def faces_val_def map_of_child_update)
qed

theorem markAttendance_contract_witness:
  "isInitialized cloud_A
   \<and> ''999'' \<notin> face_id ` set [face_asha, face_legacy]
   \<and> local_markAttendance 2000 ''999'' [face_asha, face_legacy] = (False, [face_asha, face_legacy])
   \<and> ''102'' \<in> face_id ` set [face_asha, face_legacy]
   \<and> fst (local_markAttendance 2000 ''102'' [face_asha, face_legacy]) = True
   \<and> local_getFace ''102'' (snd (local_markAttendance 2000 ''102'' [face_asha, face_legacy]))
       = Some (face_legacy\<lparr> descriptors := Some [[3, 4]], attendanceToday := True,
                 lastSeen := Some 2000 \<rparr>)
   \<and> child_val config_A ''999'' cloud_A = None
   \<and> cloud_markAttendance 2000 config_A ''999'' cloud_A = Inr (False, cloud_A)
   \<and> child_val config_A ''101'' cloud_A = Some face_asha
   \<and> (\<exists>cs'. cloud_markAttendance 2000 config_A ''101'' cloud_A = Inr (True, cs')
         \<and> child_val config_A ''101'' cs'
             = Some (face_asha\<lparr> attendanceToday := True, lastSeen := Some 2000 \<rparr>))"
proof -
  have i: "isInitialized cloud_A" by (simp add: cloud_A_def)
  have l: "local_getFace ''102'' [face_asha, face_legacy]
             = Some (face_legacy\<lparr> descriptors := Some [[3, 4]] \<rparr>)"
    by (simp add: local_getFace_def store_get_def face_asha_def face_legacy_def upgrade_def
        read_descriptors_def)
  have c9: "child_val config_A ''999'' cloud_A = None"
    by (simp add: child_val_def faces_val_def path_A cloud_A_def)
  have c1: "child_val config_A ''101'' cloud_A = Some face_asha"
    by (simp add: child_val_def faces_val_def path_A cloud_A_def)
  show ?thesis
    using markAttendance_contract[OF i, of "''999''" "[face_asha, face_legacy]" 2000 config_A]
      markAttendance_contract[OF i, of "''102''" "[face_asha, face_legacy]" 2000 config_A]
      markAttendance_contract[OF i, of "''101''" "[face_asha, face_legacy]" 2000 config_A]
      i l c9 c1
    by (simp add: example_face_ids)
qed

lemma local_reset_eq:
  assumes "distinct (map face_id s)"
  shows "local_resetAllAttendance s
         = map (\<lambda>f. (upgrade f)\<lparr> attendanceToday := False, lastSeen := None \<rparr>) s"
proof -
  have "local_resetAllAttendance s
        = fold (\<lambda>f st. store_put ((upgrade f)\<lparr> attendanceToday := False, lastSeen := None \<rparr>) st) s ([] @ s)"
    by (simp add: local_resetAllAttendance_def local_getAllFaces_def fold_map comp_def)
  also have "\<dots> = [] @ map (\<lambda>f. (upgrade f)\<lparr> attendanceToday := False, lastSeen := None \<rparr>) s"
    by (rule fold_store_put) (use assms in \<open>simp_all add: upgrade_def\<close>)
  finally show ?thesis by simp
qed

text \<open>
  Claim C8.  After \<open>resetAllAttendance\<close>, \<open>getAllFaces\<close> returns the records it
  returned before, in the same order, each with \<open>attendanceToday\<close> false (and
  \<open>lastSeen\<close> cleared): ids and descriptor lists are unchanged.  The local store
  holds one record per id (its key path); the remote store is one whose
  \<open>getAllFaces\<close> succeeds.
\<close>

theorem resetAllAttendance_then_getAllFaces:
  assumes "distinct (map face_id s)" and "cloud_getAllFaces config cs = Inr fs"
  shows "local_getAllFaces (local_resetAllAttendance s)
           = map (\<lambda>f. f\<lparr> attendanceToday := False, lastSeen := None \<rparr>) (local_getAllFaces s)
    \<and> map face_id (local_getAllFaces (local_resetAllAttendance s)) = map face_id (local_getAllFaces s)
    \<and> map descriptors (local_getAllFaces (local_resetAllAttendance s))
         = map descriptors (local_getAllFaces s)
    \<and> list_all (\<lambda>f. attendanceToday f = False) (local_getAllFaces (local_resetAllAttendance s))
    \<and> (\<exists>cs'. cloud_resetAllAttendance config cs = Inr cs'
          \<and> cloud_getAllFaces config cs'
               = Inr (map (\<lambda>f. f\<lparr> attendanceToday := False, lastSeen := None \<rparr>) fs)
          \<and> map face_id (map (\<lambda>f. f\<lparr> attendanceToday := False, lastSeen := None \<rparr>) fs) = map face_id fs
          \<and> map descriptors (map (\<lambda>f. f\<lparr> attendanceToday := False, lastSeen := None \<rparr>) fs)
               = map descriptors fs
          \<and> list_all (\<lambda>f. attendanceToday f = False)
               (map (\<lambda>f. f\<lparr> attendanceToday := False, lastSeen := None \<rparr>) fs))"
proof -
  have eq: "local_getAllFaces (local_resetAllAttendance s)
           = map (\<lambda>f. f\<lparr> attendanceToday := False, lastSeen := None \<rparr>) (local_getAllFaces s)"
    by (simp add: local_reset_eq[OF assms(1)] local_getAllFaces_def upgrade_def read_descriptors_def)
  have init: "isInitialized cs"
    using assms(2) by (auto simp: cloud_getAllFaces_def split: if_splits)
  have cloud: "\<exists>cs'. cloud_resetAllAttendance config cs = Inr cs'
          \<and> cloud_getAllFaces config cs'
               = Inr (map (\<lambda>f. f\<lparr> attendanceToday := False, lastSeen := None \<rparr>) fs)"
  proof (cases "getDivisionPath config")
    case None
    then show ?thesis
      using assms(2) init by (auto simp: cloud_resetAllAttendance_def cloud_getAllFaces_def faces_val_def)
  next
    case (Some p)
    show ?thesis
    proof (cases "db cs p = []")
      case True
      then show ?thesis
        using assms(2) init Some
        by (auto simp: cloud_resetAllAttendance_def cloud_getAllFaces_def faces_val_def)
    next
      case False
      then show ?thesis
        using assms(2) init Some
        by (auto simp: cloud_resetAllAttendance_def cloud_getAllFaces_def faces_val_def
            list_all_iff comp_def case_prod_beta split: if_splits)
    qed
  qed
  show ?thesis
    using eq cloud by (simp add: list_all_iff comp_def)
qed

theorem resetAllAttendance_then_getAllFaces_witness:
  "distinct (map face_id [face_asha, face_legacy])
   \<and> cloud_getAllFaces config_A cloud_A = Inr [face_asha]
   \<and> local_getAllFaces (local_resetAllAttendance [face_asha, face_legacy])
       = [face_asha\<lparr> attendanceToday := False, lastSeen := None \<rparr>,
          face_legacy\<lparr> descriptors := Some [[3, 4]], attendanceToday := False, lastSeen := None \<rparr>]
   \<and> (\<exists>cs'. cloud_resetAllAttendance config_A cloud_A = Inr cs'
         \<and> cloud_getAllFaces config_A cs'
             = Inr [face_asha\<lparr> attendanceToday := False, lastSeen := None \<rparr>])"
proof -
  have d: "distinct (map face_id [face_asha, face_legacy])"
    by (simp add: example_face_ids)
  have c: "cloud_getAllFaces config_A cloud_A = Inr [face_asha]"
    by (simp add: cloud_getAllFaces_def faces_val_def path_A cloud_A_def face_asha_def)
  have g: "local_getAllFaces [face_asha, face_legacy]
           = [face_asha, face_legacy\<lparr> descriptors := Some [[3, 4]] \<rparr>]"
    by (simp add: local_getAllFaces_def upgrade_def read_descriptors_def face_asha_def
        face_legacy_def)
  show ?thesis
    using resetAllAttendance_then_getAllFaces[OF d c] d c g by simp
qed

text \<open>
  Claim C9, what the code does.  The local backend reads a legacy record, one with the
  single field \<open>descriptor\<close> and no \<open>descriptors\<close> list, as the same record with
  the one-element list: \<open>getAllFaces\<close> at its position, and \<open>getFace\<close> by its id.
  The remote backend has no branch for the legacy format: on such a record under the
  current division path, \<open>getFace\<close> of its key and \<open>getAllFaces\<close> throw a
  TypeError, where the claim has them return the upgraded record.
\<close>

theorem legacy_record_reads:
  assumes "descriptors f = None" and "descriptor f = Some d"
  shows "(i < length s \<and> s ! i = f \<longrightarrow>
            length (local_getAllFaces s) = length s
          \<and> local_getAllFaces s ! i = f\<lparr> descriptors := Some [d] \<rparr>)
    \<and> (distinct (map face_id s) \<and> f \<in> set s \<longrightarrow>
            local_getFace (face_id f) s = Some (f\<lparr> descriptors := Some [d] \<rparr>))
    \<and> (isInitialized cs \<and> child_val config k cs = Some f \<longrightarrow>
            cloud_getFace config k cs = Inl TypeError
          \<and> cloud_getAllFaces config cs = Inl TypeError)"
proof (intro conjI impI)
  have u: "upgrade f = f\<lparr> descriptors := Some [d] \<rparr>"
    using assms by (simp add: upgrade_def read_descriptors_def)
  {
    assume "i < length s \<and> s ! i = f"
    then show "length (local_getAllFaces s) = length s"
      and "local_getAllFaces s ! i = f\<lparr> descriptors := Some [d] \<rparr>"
      using u by (auto simp: local_getAllFaces_def)
  }
  {
    assume "distinct (map face_id s) \<and> f \<in> set s"
    then show "local_getFace (face_id f) s = Some (f\<lparr> descriptors := Some [d] \<rparr>)"
      using u by (simp add: local_getFace_def store_get_distinct)
  }
  {
    assume a: "isInitialized cs \<and> child_val config k cs = Some f"
    then obtain p where p: "getDivisionPath config = Some p" and mf: "map_of (db cs p) k = Some f"
      by (auto simp: child_val_def faces_val_def split: option.splits)
    from mf have mem: "f \<in> snd ` set (db cs p)"
      by (metis image_eqI map_of_SomeD snd_conv)
    show "cloud_getFace config k cs = Inl TypeError"
      using a p assms by (simp add: cloud_getFace_def)
    show "cloud_getAllFaces config cs = Inl TypeError"
      using a p mem assms(1)
      by (auto simp: cloud_getAllFaces_def faces_val_def list_all_iff)
  }
qed

theorem legacy_record_reads_witness:
  "descriptors face_legacy = None \<and> descriptor face_legacy = Some [3, 4]
   \<and> (1::nat) < length [face_asha, face_legacy] \<and> [face_asha, face_legacy] ! 1 = face_legacy
   \<and> local_getAllFaces [face_asha, face_legacy] ! 1 = face_legacy\<lparr> descriptors := Some [[3, 4]] \<rparr>
   \<and> distinct (map face_id [face_asha, face_legacy]) \<and> face_legacy \<in> set [face_asha, face_legacy]
   \<and> local_getFace ''102'' [face_asha, face_legacy] = Some (face_legacy\<lparr> descriptors := Some [[3, 4]] \<rparr>)
   \<and> isInitialized cloud_legacy \<and> child_val config_A ''102'' cloud_legacy = Some face_legacy
   \<and> cloud_getFace config_A ''102'' cloud_legacy = Inl TypeError
   \<and> cloud_getAllFaces config_A cloud_legacy = Inl TypeError"
proof -
  have a: "descriptors face_legacy = None" "descriptor face_legacy = Some [3, 4]"
    by (simp_all add: face_legacy_def)
  have c: "isInitialized cloud_legacy" "child_val config_A ''102'' cloud_legacy = Some face_legacy"
    by (simp_all add: cloud_legacy_def child_val_def faces_val_def path_A)
  show ?thesis
    using legacy_record_reads[OF a, of 1 "[face_asha, face_legacy]" cloud_legacy config_A "''102''"] a c
    by (simp add: example_face_ids)
qed

text \<open>
  At a concrete remote store: student 102 is stored in the legacy format beside
  student 101, and neither read of the remote backend returns.
\<close>

theorem remote_read_of_legacy_record_fails:
  "cloud_getAllFaces config_A cloud_legacy = Inl TypeError
   \<and> cloud_getFace config_A ''102'' cloud_legacy = Inl TypeError
   \<and> descriptors face_legacy = None \<and> descriptor face_legacy = Some [3, 4]"
  by (simp add: cloud_getAllFaces_def cloud_getFace_def child_val_def faces_val_def path_A
      cloud_legacy_def face_legacy_def face_asha_def)


section \<open>Properties of the Session Gate\<close>

text \<open>
  Claim C4.  A student scans a token that carries a session id and whose division
  tuple differs from the account's in at least one of its four fields: the scan ends
  at the WRONG DIVISION toast, and the state afterwards is the state before with that
  toast added, so no field of the teaching context (division, subject, month, year,
  day) is modified.
\<close>

theorem wrong_division_scan_rejected:
  assumes "userRole s = JStr ''student''" and "truthy (qrId qrData)"
    and "(selectedDepartment (mainSystemConfig s), selectedCourse (mainSystemConfig s),
          selectedAcademicYear (mainSystemConfig s), selectedDivision (mainSystemConfig s))
         \<noteq> (qr_department qrData, qr_course qrData, qr_academicYear qrData, qr_division qrData)"
  shows "handleQRScan now env (Parsed qrData) s
           = (WrongDivision,
              s\<lparr> effects := effects s
                   @ [ShowToast (wrong_division_message qrData (mainSystemConfig s)) ''danger''] \<rparr>)
       \<and> mainSystemConfig (snd (handleQRScan now env (Parsed qrData) s)) = mainSystemConfig s
       \<and> take 15 (wrong_division_message qrData (mainSystemConfig s)) = ''WRONG DIVISION!''"
  using assms
  by (auto simp: handleQRScan_def showToast_def emit_def wrong_division_message_def)

theorem wrong_division_scan_rejected_witness:
  "userRole sys_student = JStr ''student'' \<and> truthy (qrId token_B)
   \<and> selectedDivision (mainSystemConfig sys_student) = JStr ''A'' \<and> qr_division token_B = JStr ''B''
   \<and> fst (handleQRScan 1000 env_live (Parsed token_B) sys_student) = WrongDivision
   \<and> mainSystemConfig (snd (handleQRScan 1000 env_live (Parsed token_B) sys_student)) = config_student"
proof -
  have a: "userRole sys_student = JStr ''student''" "truthy (qrId token_B)"
    by (simp_all add: sys_student_def token_B_def token_A_def)
  have b: "(selectedDepartment (mainSystemConfig sys_student), selectedCourse (mainSystemConfig sys_student),
          selectedAcademicYear (mainSystemConfig sys_student), selectedDivision (mainSystemConfig sys_student))
         \<noteq> (qr_department token_B, qr_course token_B, qr_academicYear token_B, qr_division token_B)"
    by (simp add: sys_student_def config_student_def token_B_def token_A_def)
  show ?thesis
    using wrong_division_scan_rejected[OF a b, of 1000 env_live] a
    by (simp add: sys_student_def config_student_def token_B_def token_A_def)
qed

text \<open>
  Claim C3, what the code does.  For a token that carries a session id and passes the
  division check: without a live connection the scan is rejected and nothing of the
  context or the tracked session changes (fail closed, as the claim says).  With a live
  connection and a lookup that errors, the scan is rejected as well: the installed
  \<open>validateQRSession\<close> lets the error escape into the \<open>catch\<close> of
  \<open>handleQRScan\<close>, which shows the invalid-format toast and applies nothing.  The
  fail-open answer \<open>true\<close> is what the first, overridden definition of
  \<open>validateQRSession\<close> returns on the same input.
\<close>

theorem scan_validation_failures_reject:
  assumes "truthy (qrId qrData)"
    and "userRole s \<noteq> JStr ''student''
         \<or> (selectedDepartment (mainSystemConfig s), selectedCourse (mainSystemConfig s),
             selectedAcademicYear (mainSystemConfig s), selectedDivision (mainSystemConfig s))
            = (qr_department qrData, qr_course qrData, qr_academicYear qrData, qr_division qrData)"
  shows "(\<not> isConnected s \<longrightarrow>
            fst (handleQRScan now env (Parsed qrData) s) = FirebaseNotConnected
          \<and> mainSystemConfig (snd (handleQRScan now env (Parsed qrData) s)) = mainSystemConfig s
          \<and> currentQRId (snd (handleQRScan now env (Parsed qrData) s)) = currentQRId s)
       \<and> (isConnected s \<and> reads_fail env \<longrightarrow>
            handleQRScan now env (Parsed qrData) s = (InvalidFormat, invalid_format_toast s)
          \<and> mainSystemConfig (invalid_format_toast s) = mainSystemConfig s
          \<and> currentQRId (invalid_format_toast s) = currentQRId s
          \<and> validateQRSession_first (isConnected s) now env (qrId qrData) = True)"
  using assms
  by (auto simp: handleQRScan_def showToast_def emit_def invalid_format_toast_def
      validateQRSession_def validateQRSession_first_def read_activeQR_def)

theorem scan_validation_failures_reject_witness:
  "truthy (qrId token_A) \<and> userRole sys_teacher \<noteq> JStr ''student''
   \<and> isConnected sys_teacher \<and> reads_fail env_failing
   \<and> handleQRScan 1000 env_failing (Parsed token_A) sys_teacher
       = (InvalidFormat, sys_teacher\<lparr> effects := [ShowToast ''Invalid QR code format'' ''danger''] \<rparr>)
   \<and> validateQRSession_first True 1000 env_failing (qrId token_A) = True
   \<and> \<not> isConnected (sys_teacher\<lparr> isConnected := False \<rparr>)
   \<and> fst (handleQRScan 1000 env_live (Parsed token_A) (sys_teacher\<lparr> isConnected := False \<rparr>))
       = FirebaseNotConnected"
proof -
  have a: "truthy (qrId token_A)" by (simp add: token_A_def)
  have b: "userRole sys_teacher \<noteq> JStr ''student''" by (simp add: sys_teacher_def)
  have b': "userRole (sys_teacher\<lparr> isConnected := False \<rparr>) \<noteq> JStr ''student''"
    by (simp add: sys_teacher_def)
  have c: "isConnected sys_teacher" "reads_fail env_failing"
    by (simp_all add: sys_teacher_def sys_student_def env_failing_def)
  have t: "invalid_format_toast sys_teacher
           = sys_teacher\<lparr> effects := [ShowToast ''Invalid QR code format'' ''danger''] \<rparr>"
    by (simp add: invalid_format_toast_def showToast_def emit_def sys_teacher_def sys_student_def)
  show ?thesis
    using scan_validation_failures_reject[OF a disjI1[OF b], of 1000 env_failing]
      scan_validation_failures_reject[OF a disjI1[OF b'], of 1000 env_live]
      a b c t
    by simp
qed


section \<open>Properties of the day-change guard\<close>

lemmas resume_defs = resume_def updateStudentList_def updateStats_def reset_failed_def
  day_change_failed_def emit_def showToast_def day_changed_toast_def

lemma effects_resume:
  "effects (resume today s) = effects s @ new_effects s (resume today s)"
  by (simp add: resume_defs new_effects_def
      split: list.splits prod.splits await_point.splits sum.splits)


lemma resume_adds_no_reset:
  "StorageResetAllAttendance \<notin> set (new_effects s (resume today s))"
  "skip_log \<notin> set (new_effects s (resume today s))"
  by (simp_all add: resume_defs new_effects_def skip_log_def
      split: list.splits prod.splits await_point.splits sum.splits)

lemma new_effects_trans:
  "effects b = effects a @ x \<Longrightarrow> effects c = effects b @ y \<Longrightarrow>
   new_effects a c = new_effects a b @ new_effects b c"
  by (simp add: new_effects_def)

lemma effects_resumes_ex: "\<exists>x. effects ((resume today ^^ n) s) = effects s @ x"
proof (induction n)
  case 0
  show ?case by simp
next
  case (Suc n)
  then obtain x where x: "effects ((resume today ^^ n) s) = effects s @ x" by blast
  have "effects (resume today ((resume today ^^ n) s))
        = effects ((resume today ^^ n) s)
          @ new_effects ((resume today ^^ n) s) (resume today ((resume today ^^ n) s))"
    by (rule effects_resume)
  with x show ?case by simp
qed

lemma effects_resumes:
  "effects ((resume today ^^ n) s) = effects s @ new_effects s ((resume today ^^ n) s)"
  using effects_resumes_ex[where today=today and n=n and s=s] by (auto simp: new_effects_def)

lemma resumes_add_no_reset:
  "StorageResetAllAttendance \<notin> set (new_effects s ((resume today ^^ n) s))
   \<and> skip_log \<notin> set (new_effects s ((resume today ^^ n) s))"
proof (induction n)
  case 0
  show ?case by (simp add: new_effects_def)
next
  case (Suc n)
  let ?M = "(resume today ^^ n) s"
  have a: "effects ?M = effects s @ new_effects s ?M" by (rule effects_resumes)
  have b: "effects (resume today ?M) = effects ?M @ new_effects ?M (resume today ?M)"
    by (rule effects_resume)
  have c: "new_effects s (resume today ?M) = new_effects s ?M @ new_effects ?M (resume today ?M)"
    by (rule new_effects_trans[OF a b])
  show ?case
    using Suc c resume_adds_no_reset[where s="?M" and today=today] by simp
qed



lemma resume_idle: "suspended s = [] \<Longrightarrow> resume today s = s"
  by (simp add: resume_def)

lemma resumes_ended: "ended config s \<Longrightarrow> (resume today ^^ n) s = s"
  by (induction n) (simp_all add: ended_def resume_idle)


lemma start_parked:
  assumes "\<not> isHandlingDayChange s" and "suspended s = []"
    and "d1 \<noteq> JNull" and "d1 \<noteq> JUndefined" and "d1 \<noteq> currentDay (mainSystemConfig s)"
  shows "parked AwaitReset d1 ((mainSystemConfig s)\<lparr> currentDay := d1 \<rparr>) (isConnected s) (storage s)
           (handleFirebaseDayChange d1 s)"
    and "effects (handleFirebaseDayChange d1 s)
         = effects s @ [UpdateConfigDisplay, StorageResetAllAttendance]"
  using assms by (simp_all add: handleFirebaseDayChange_def emit_def parked_def)

lemma step_reset_ok:
  assumes "parked AwaitReset d c l st s" and "storage_resetAllAttendance c st = Inr st'"
  shows "parked AwaitInnerList d c l st' (resume today s)"
    and "effects (resume today s) = effects s"
  using assms by (simp_all add: resume_defs parked_def)



lemma step_inner_list_failed:
  assumes "parked AwaitInnerList d c l st s" and "storage_getAllFaces c st = Inl e"
  shows "parked AwaitHandleDayChange d c l st (resume today s)"
    and "effects (resume today s)
         = effects s @ [ShowToast ''Failed to reset attendance for new day'' ''danger'']"
  using assms by (simp_all add: resume_defs parked_def)


lemma step_outer:
  assumes "parked AwaitHandleDayChange d c l st s"
  shows "parked AwaitOuterList d c l st (resume today s)"
    and "effects (resume today s) = effects s"
  using assms by (simp_all add: resume_defs parked_def)


lemma step_outer_list_failed:
  assumes "parked AwaitOuterList d c l st s" and "storage_getAllFaces c st = Inl e"
  shows "ended c (resume today s)"
    and "effects (resume today s)
         = effects s @ [ShowToast ''Failed to handle day change'' ''danger'']"
  using assms by (simp_all add: resume_defs parked_def ended_def)














text \<open>
  A store whose faces cannot be read (it holds a record without \<open>descriptors\<close>): the
  reset succeeds, the refresh inside \<open>handleDayChange\<close> throws and is reported there,
  the refresh after it throws and ends the run: nothing is drawn, and the guard is
  cleared at the fourth resumption.
\<close>

lemma day_change_on_unreadable_store:
  "effects (one_notification today_12 (JNum 6) sys_day5_unreadable)
     = [UpdateConfigDisplay, StorageResetAllAttendance,
        ShowToast ''Failed to reset attendance for new day'' ''danger'',
        ShowToast ''Failed to handle day change'' ''danger'']"
  "isHandlingDayChange ((resume today_12 ^^ 3) (handleFirebaseDayChange (JNum 6) sys_day5_unreadable))"
  "\<not> isHandlingDayChange ((resume today_12 ^^ 4) (handleFirebaseDayChange (JNum 6) sys_day5_unreadable))"
  "refreshes_per_change ((mainSystemConfig sys_day5_unreadable)\<lparr> currentDay := JNum 6 \<rparr>)
     (isConnected sys_day5_unreadable) (storage sys_day5_unreadable) = 0"
proof -
  let ?s = sys_day5_unreadable
  let ?cfg = "config_A\<lparr> currentDay := JNum 6 \<rparr>"
  let ?st' = "CloudStorage (cloud_legacy\<lparr> db := (db cloud_legacy)(''faces/CS/BTech/2024/A'' :=
              [(''101'', face_asha\<lparr> attendanceToday := False, lastSeen := None \<rparr>),
               (''102'', face_legacy\<lparr> attendanceToday := False, lastSeen := None \<rparr>)]) \<rparr>)"
  have f: "\<not> isHandlingDayChange ?s" "suspended ?s = []" "effects ?s = []"
    "currentDay (mainSystemConfig ?s) = JNum 5"
    "mainSystemConfig ?s = config_A" "storage ?s = CloudStorage cloud_legacy" "isConnected ?s"
    by (simp_all add: sys_day5_unreadable_def sys_day5_def sys_teacher_def sys_student_def config_A_def)
  have r: "storage_resetAllAttendance ?cfg (CloudStorage cloud_legacy) = Inr ?st'"
    by (simp add: storage_resetAllAttendance_def cloud_resetAllAttendance_def
        getDivisionPath_def config_A_def cloud_legacy_def Let_def)
  have g: "storage_getAllFaces ?cfg ?st' = Inl TypeError"
    by (simp add: storage_getAllFaces_def cloud_getAllFaces_def faces_val_def getDivisionPath_def
        config_A_def cloud_legacy_def face_asha_def face_legacy_def)
  note r' = r[folded f(5,6)]
  note g' = g[folded f(5)]
  have d: "JNum 6 \<noteq> JNull" "JNum 6 \<noteq> JUndefined" "JNum 6 \<noteq> currentDay (mainSystemConfig ?s)"
    by (simp_all add: f(4))
  note st = start_parked[OF f(1,2) d]
  note s1 = step_reset_ok[OF st(1) r', of today_12]
  note s2 = step_inner_list_failed[OF s1(1) g', of today_12]
  note s3 = step_outer[OF s2(1), of today_12]
  note s4 = step_outer_list_failed[OF s3(1) g', of today_12]
  have i: "one_notification today_12 (JNum 6) ?s
           = resume today_12 (resume today_12 (resume today_12 (resume today_12
               (handleFirebaseDayChange (JNum 6) ?s))))"
    using resumes_ended[OF s4(1), where today=today_12 and n=2]
    by (simp add: one_notification_def eval_nat_numeral)
  show "effects (one_notification today_12 (JNum 6) ?s)
     = [UpdateConfigDisplay, StorageResetAllAttendance,
        ShowToast ''Failed to reset attendance for new day'' ''danger'',
        ShowToast ''Failed to handle day change'' ''danger'']"
    by (simp add: i st(2) s1(2) s2(2) s3(2) s4(2) f(3))
  show "isHandlingDayChange ((resume today_12 ^^ 3) (handleFirebaseDayChange (JNum 6) ?s))"
    using s3(1) by (simp add: eval_nat_numeral parked_def)
  show "\<not> isHandlingDayChange ((resume today_12 ^^ 4) (handleFirebaseDayChange (JNum 6) ?s))"
    using s4(1) by (simp add: eval_nat_numeral ended_def)
  show "refreshes_per_change ((mainSystemConfig ?s)\<lparr> currentDay := JNum 6 \<rparr>)
     (isConnected ?s) (storage ?s) = 0"
    by (simp add: refreshes_per_change_def f(5,6) r g)
qed


section \<open>Properties of marking\<close>

lemma students_message_names_dates:
  "\<exists>a b c. students_today_only_message today config
     = a @ date_text (JNum (todayDay today)) (JNum (todayMonth today)) (JNum (todayYear today))
       @ b @ date_text (currentDay config) (selectedMonth config) (selectedYear config) @ c"
  unfolding students_today_only_message_def
  by (metis append.assoc)

lemma student_validation_fails:
  assumes "userRole s = JStr ''student''"
    and "(currentDay (mainSystemConfig s), selectedMonth (mainSystemConfig s),
          selectedYear (mainSystemConfig s))
         \<noteq> (JNum (todayDay today), JNum (todayMonth today), JNum (todayYear today))"
  shows "\<exists>m. validateDateForRole today s = Invalid m"
  using assms by (auto simp: validateDateForRole_def Let_def)

text \<open>
  Claim C2, as amended.  The role is student and the context's day, month and year are
  not the real current date.  Then a mark attempt never calls
  \<open>storage.markAttendance\<close>: it returns with the store, the recognized set and the
  cooldown times unchanged.  If the attempt is past the cooldown it fails date
  validation, shows the validation message in a toast and stops the camera.  If
  moreover the connection is live and day, month and year of the context are set, the
  message is the students-only one, which names today's date and the context's date.
\<close>

theorem student_date_lockout:
  assumes "userRole s = JStr ''student''"
    and "(currentDay (mainSystemConfig s), selectedMonth (mainSystemConfig s),
          selectedYear (mainSystemConfig s))
         \<noteq> (JNum (todayDay today), JNum (todayMonth today), JNum (todayYear today))"
  shows "(\<exists>s'. markAttendanceWithCooldown now today studentId studentName s = Inr s'
            \<and> storage s' = storage s
            \<and> filter is_mark_call (new_effects s s') = []
            \<and> recognizedToday s' = recognizedToday s
            \<and> lastAttendanceTime s' = lastAttendanceTime s)
     \<and> (\<not> now - (case lastAttendanceTime s studentId of None \<Rightarrow> 0 | Some t \<Rightarrow> t) < ATTENDANCE_COOLDOWN
          \<longrightarrow> (\<exists>m. validateDateForRole today s = Invalid m
                \<and> markAttendanceWithCooldown now today studentId studentName s
                    = Inr (stopCamera (showToast (''Date validation failed!'' @ nl @ m @ nl @ nl
                                                  @ ''Camera stopped.'') ''danger'' s))))
     \<and> (isConnected s \<and> currentDay (mainSystemConfig s) \<noteq> JNull
          \<and> selectedMonth (mainSystemConfig s) \<noteq> JNull \<and> selectedYear (mainSystemConfig s) \<noteq> JNull
          \<longrightarrow> validateDateForRole today s
                = Invalid (students_today_only_message today (mainSystemConfig s))
              \<and> (\<exists>a b c. students_today_only_message today (mainSystemConfig s)
                    = a @ date_text (JNum (todayDay today)) (JNum (todayMonth today))
                            (JNum (todayYear today))
                      @ b @ date_text (currentDay (mainSystemConfig s))
                              (selectedMonth (mainSystemConfig s)) (selectedYear (mainSystemConfig s))
                      @ c))"
proof (intro conjI impI)
  from student_validation_fails[OF assms] obtain m where m: "validateDateForRole today s = Invalid m"
    by blast
  show "\<exists>s'. markAttendanceWithCooldown now today studentId studentName s = Inr s'
            \<and> storage s' = storage s
            \<and> filter is_mark_call (new_effects s s') = []
            \<and> recognizedToday s' = recognizedToday s
            \<and> lastAttendanceTime s' = lastAttendanceTime s"
    using m
    by (simp add: markAttendanceWithCooldown_def Let_def stopCamera_def showToast_def emit_def
        new_effects_def is_mark_call_def)
  show "\<exists>m. validateDateForRole today s = Invalid m
          \<and> markAttendanceWithCooldown now today studentId studentName s
              = Inr (stopCamera (showToast (''Date validation failed!'' @ nl @ m @ nl @ nl
                                            @ ''Camera stopped.'') ''danger'' s))"
    if "\<not> now - (case lastAttendanceTime s studentId of None \<Rightarrow> 0 | Some t \<Rightarrow> t) < ATTENDANCE_COOLDOWN"
    using m that by (simp add: markAttendanceWithCooldown_def Let_def)
  show "validateDateForRole today s
          = Invalid (students_today_only_message today (mainSystemConfig s))"
    if "isConnected s \<and> currentDay (mainSystemConfig s) \<noteq> JNull
          \<and> selectedMonth (mainSystemConfig s) \<noteq> JNull \<and> selectedYear (mainSystemConfig s) \<noteq> JNull"
    using assms that by (auto simp: validateDateForRole_def Let_def)
  show "\<exists>a b c. students_today_only_message today (mainSystemConfig s)
                    = a @ date_text (JNum (todayDay today)) (JNum (todayMonth today))
                            (JNum (todayYear today))
                      @ b @ date_text (currentDay (mainSystemConfig s))
                              (selectedMonth (mainSystemConfig s)) (selectedYear (mainSystemConfig s))
                      @ c"
    by (rule students_message_names_dates)
qed

lemma example_dates:
  "date_text (JNum 12) (JNum 10) (JNum 2026) = ''12 November 2026''"
  "date_text (JNum 5) (JNum 10) (JNum 2026) = ''5 November 2026''"
  by (simp_all add: date_text_def month_text_def monthNames_def show_int_def digit_char_def)

lemma sys_student_day5_facts:
  "userRole sys_student_day5 = JStr ''student''" "isConnected sys_student_day5"
  "mainSystemConfig sys_student_day5 = config_A"
  "lastAttendanceTime sys_student_day5 ''101'' = None"
  "effects sys_student_day5 = []"
  by (simp_all add: sys_student_day5_def sys_student_def)

theorem student_date_lockout_witness:
  "userRole sys_student_day5 = JStr ''student''
   \<and> currentDay (mainSystemConfig sys_student_day5) = JNum 5 \<and> todayDay today_12 = 12
   \<and> isConnected sys_student_day5
   \<and> validateDateForRole today_12 sys_student_day5
       = Invalid (students_today_only_message today_12 config_A)
   \<and> markAttendanceWithCooldown 100000 today_12 ''101'' ''Asha'' sys_student_day5
       = Inr (stopCamera (showToast (''Date validation failed!'' @ nl
                @ students_today_only_message today_12 config_A @ nl @ nl @ ''Camera stopped.'')
                ''danger'' sys_student_day5))
   \<and> (\<exists>a b c. students_today_only_message today_12 config_A
          = a @ ''12 November 2026'' @ b @ ''5 November 2026'' @ c)"
proof -
  note f = sys_student_day5_facts
  have a: "(currentDay (mainSystemConfig sys_student_day5), selectedMonth (mainSystemConfig sys_student_day5),
          selectedYear (mainSystemConfig sys_student_day5))
         \<noteq> (JNum (todayDay today_12), JNum (todayMonth today_12), JNum (todayYear today_12))"
    by (simp add: f config_A_def today_12_def)
  have t: "todayDay today_12 = 12" "todayMonth today_12 = 10" "todayYear today_12 = 2026"
    by (simp_all add: today_12_def)
  have c: "currentDay config_A = JNum 5" "selectedMonth config_A = JNum 10"
    "selectedYear config_A = JNum 2026"
    by (simp_all add: config_A_def)
  have k: "\<not> 100000 - (case lastAttendanceTime sys_student_day5 ''101'' of None \<Rightarrow> 0 | Some t \<Rightarrow> t)
             < ATTENDANCE_COOLDOWN"
    by (simp add: f ATTENDANCE_COOLDOWN_def)
  note T = student_date_lockout[OF f(1) a, of 100000 "''101''" "''Asha''"]
  have g: "isConnected sys_student_day5 \<and> currentDay (mainSystemConfig sys_student_day5) \<noteq> JNull
          \<and> selectedMonth (mainSystemConfig sys_student_day5) \<noteq> JNull
          \<and> selectedYear (mainSystemConfig sys_student_day5) \<noteq> JNull"
    by (simp add: f c)
  from T g have v: "validateDateForRole today_12 sys_student_day5
       = Invalid (students_today_only_message today_12 config_A)"
    by (simp add: f(3))
  from T k obtain m where "validateDateForRole today_12 sys_student_day5 = Invalid m"
    and mk: "markAttendanceWithCooldown 100000 today_12 ''101'' ''Asha'' sys_student_day5
              = Inr (stopCamera (showToast (''Date validation failed!'' @ nl @ m @ nl @ nl
                                            @ ''Camera stopped.'') ''danger'' sys_student_day5))"
    by blast
  with v have m: "m = students_today_only_message today_12 config_A" by simp
  from T g have "\<exists>a b c. students_today_only_message today_12 (mainSystemConfig sys_student_day5)
                    = a @ date_text (JNum (todayDay today_12)) (JNum (todayMonth today_12))
                            (JNum (todayYear today_12))
                      @ b @ date_text (currentDay (mainSystemConfig sys_student_day5))
                              (selectedMonth (mainSystemConfig sys_student_day5))
                              (selectedYear (mainSystemConfig sys_student_day5))
                      @ c"
    by blast
  then have n: "\<exists>a b c. students_today_only_message today_12 config_A
          = a @ ''12 November 2026'' @ b @ ''5 November 2026'' @ c"
    by (simp only: f(3) t c example_dates)
  show ?thesis
    using f(1,2) v mk[unfolded m] n by (simp add: f(3) c t)
qed

text \<open>
  The claim as stated lets every attempt fail with a message naming both dates.  With
  context day 5 and today the 12th: an attempt one second after the last mark returns
  silently, without validation or message; without a live connection, or with the
  context's day unset, validation fails with a message that names no date.
\<close>

theorem mark_attempt_without_date_message:
  "markAttendanceWithCooldown 2000 today_12 ''101'' ''Asha''
     (sys_student_day5\<lparr> lastAttendanceTime := (\<lambda>k. None)(''101'' \<mapsto> 1000) \<rparr>)
     = Inr (sys_student_day5\<lparr> lastAttendanceTime := (\<lambda>k. None)(''101'' \<mapsto> 1000) \<rparr>)
   \<and> validateDateForRole today_12 (sys_student_day5\<lparr> isConnected := False \<rparr>)
       = Invalid ''Firebase not connected. Please check your connection.''
   \<and> validateDateForRole today_12
        (sys_student_day5\<lparr> mainSystemConfig := config_A\<lparr> currentDay := JNull \<rparr> \<rparr>)
       = Invalid ''Please select a date in the main system first!''
   \<and> effects (projr (markAttendanceWithCooldown 100000 today_12 ''101'' ''Asha''
        (sys_student_day5\<lparr> mainSystemConfig := config_A\<lparr> currentDay := JNull \<rparr> \<rparr>)))
       = [ShowToast (''Date validation failed!'' @ nl
                     @ ''Please select a date in the main system first!'' @ nl @ nl
                     @ ''Camera stopped.'') ''danger'', StopCamera]"
  by (simp add: markAttendanceWithCooldown_def validateDateForRole_def ATTENDANCE_COOLDOWN_def
      sys_student_day5_def sys_student_def config_A_def stopCamera_def showToast_def emit_def)


section \<open>Properties of the second factor and of matcher construction\<close>





lemma loadFaceMatcher_all_faces:
  "loadFaceMatcher config st
     = (case storage_getAllFaces config st of
          Inl e \<Rightarrow> Inl e
        | Inr allFaces \<Rightarrow> Inr (if allFaces = [] then None else Some (map labeled_of allFaces)))"
  by (cases st)
    (auto simp: loadFaceMatcher_def storage_getAllFaces_def storage_getLabeledDescriptors_def
      Let_def cloud_getAllFaces_def split: sum.splits)





text \<open>
  Claim C6, what the code does on the remote backend, the one a running system holds.
  \<open>loadFaceMatcher\<close> computes the faces whose four division fields equal the current
  division's and hands them to \<open>getLabeledDescriptors\<close>, which takes no argument and
  reads the faces under the current division path again.  So the matcher is built from
  every face read under that path, whatever the record's own division fields; only an
  empty read leaves the matcher \<open>null\<close>.  With an incomplete division the read is
  empty, and the matcher is \<open>null\<close>: no descriptor is used.
\<close>

theorem matcher_ignores_division_filter:
  assumes "cloud_getAllFaces config cs = Inr faces"
  shows "loadFaceMatcher config (CloudStorage cs)
           = Inr (if faces = [] then None else Some (map labeled_of faces))
       \<and> (\<not> (truthy (selectedDepartment config) \<and> truthy (selectedCourse config)
               \<and> truthy (selectedAcademicYear config) \<and> truthy (selectedDivision config))
            \<longrightarrow> loadFaceMatcher config (CloudStorage cs) = Inr None)"
proof -
  have a: "loadFaceMatcher config (CloudStorage cs)
           = Inr (if faces = [] then None else Some (map labeled_of faces))"
    using assms by (simp add: loadFaceMatcher_all_faces storage_getAllFaces_def)
  have "faces = []"
    if "\<not> (truthy (selectedDepartment config) \<and> truthy (selectedCourse config)
             \<and> truthy (selectedAcademicYear config) \<and> truthy (selectedDivision config))"
    using assms that
    by (auto simp: cloud_getAllFaces_def faces_val_def getDivisionPath_def split: if_splits)
  with a show ?thesis by simp
qed

text \<open>
  The division path renders the number 2024 and the string \<open>2024\<close> alike, while the
  filter compares with \<open>===\<close>.  Record 103 was saved while \<open>selectedAcademicYear\<close>
  held the number; the current context holds the string.  The filter keeps only record
  101; the matcher is built from both.
\<close>

theorem matcher_ignores_division_filter_witness:
  "getDivisionPath (config_A\<lparr> selectedAcademicYear := JNum 2024 \<rparr>) = getDivisionPath config_A
   \<and> cloud_getAllFaces config_A cloud_mixed = Inr [face_asha, face_meera]
   \<and> filter (\<lambda>f. department f = selectedDepartment config_A \<and> course f = selectedCourse config_A
                 \<and> academicYear f = selectedAcademicYear config_A
                 \<and> division f = selectedDivision config_A) [face_asha, face_meera]
       = [face_asha]
   \<and> loadFaceMatcher config_A (CloudStorage cloud_mixed)
       = Inr (Some [(''101|Asha'', [[1, 2], [5, 6]]), (''103|Meera'', [[7, 8]])])
   \<and> cloud_getAllFaces initial_config cloud_mixed = Inr []
   \<and> loadFaceMatcher initial_config (CloudStorage cloud_mixed) = Inr None"
proof -
  have p: "getDivisionPath (config_A\<lparr> selectedAcademicYear := JNum 2024 \<rparr>) = getDivisionPath config_A"
    by (simp add: getDivisionPath_def config_A_def show_int_def digit_char_def)
  have g: "cloud_getAllFaces config_A cloud_mixed = Inr [face_asha, face_meera]"
    by (simp add: cloud_getAllFaces_def faces_val_def path_A cloud_mixed_def
        face_asha_def face_meera_def)
  have f: "filter (\<lambda>f. department f = selectedDepartment config_A \<and> course f = selectedCourse config_A
                 \<and> academicYear f = selectedAcademicYear config_A
                 \<and> division f = selectedDivision config_A) [face_asha, face_meera]
       = [face_asha]"
    by (simp add: config_A_def face_asha_def face_meera_def)
  have l: "map labeled_of [face_asha, face_meera]
           = [(''101|Asha'', [[1, 2], [5, 6]]), (''103|Meera'', [[7, 8]])]"
    by (simp add: labeled_of_def read_descriptors_def face_asha_def face_meera_def)
  have e: "cloud_getAllFaces initial_config cloud_mixed = Inr []"
    by (simp add: cloud_getAllFaces_def faces_val_def getDivisionPath_def initial_config_def
        cloud_mixed_def)
  have i: "\<not> (truthy (selectedDepartment initial_config) \<and> truthy (selectedCourse initial_config)
             \<and> truthy (selectedAcademicYear initial_config) \<and> truthy (selectedDivision initial_config))"
    by (simp add: initial_config_def)
  show ?thesis
    using matcher_ignores_division_filter[OF g] matcher_ignores_division_filter[OF e] p g f l e i
    by simp
qed


section \<open>Properties of the Leave Workflow\<close>

lemma map_of_child_merge:
  "map_of (child_merge k flds kvs) k'
     = (if k' = k then map_option (\<lambda>v. v ++ flds) (map_of kvs k) else map_of kvs k')"
  unfolding child_merge_def by (induction kvs) auto


lemma map_of_Some_key: "map_of kvs k = Some v \<Longrightarrow> k \<in> fst ` set kvs"
  by (metis domI dom_map_of_conv_image_fst)

lemma path_simps:
  "getLeaveApplicationsPath (showAlert m st) = getLeaveApplicationsPath st"
  "getLeaveApplicationsPath (loadLeaveApplications st) = getLeaveApplicationsPath st"
  "getLeaveApplicationsPath (st\<lparr> firebaseLeaves := x \<rparr>) = getLeaveApplicationsPath st"
  "getLeaveApplicationsPath (saveLocalLeaves l st) = getLeaveApplicationsPath st"
  "getLeaveApplicationsPath (st\<lparr> localLeaves := y \<rparr>) = getLeaveApplicationsPath st"
  by (simp_all add: getLeaveApplicationsPath_def showAlert_def loadLeaveApplications_def
      saveLocalLeaves_def split: option.splits)

lemma stored_leaves_simps:
  "stored_leaves p (showAlert m st) = stored_leaves p st"
  "stored_leaves p (loadLeaveApplications st) = stored_leaves p st"
  by (simp_all add: stored_leaves_def loadLocalLeaves_def showAlert_def loadLeaveApplications_def
      split: option.splits)

lemma stored_application_simps:
  "stored_application k (showAlert m st) = stored_application k st"
  "stored_application k (loadLeaveApplications st) = stored_application k st"
  by (simp_all add: stored_application_def path_simps stored_leaves_simps split: option.splits)

lemma stored_after_status_update:
  assumes "getLeaveApplicationsPath st = Some p" and "stored_application leaveId st = Some old"
  shows "stored_application leaveId (write_status_update p leaveId updates st) = Some (old ++ updates)"
proof (cases "useCloud st")
  case True
  with assms have m: "map_of (firebaseLeaves st p) leaveId = Some old"
    by (simp add: stored_application_def stored_leaves_def)
  have k: "leaveId \<in> fst ` set (firebaseLeaves st p)" by (rule map_of_Some_key[OF m])
  have w: "write_status_update p leaveId updates st
           = st\<lparr> firebaseLeaves := (firebaseLeaves st)(p := child_merge leaveId updates (firebaseLeaves st p)) \<rparr>"
    using True k by (simp add: write_status_update_def firebase_update_def)
  show ?thesis
    using True m assms(1)
    by (simp add: w stored_application_def path_simps stored_leaves_def map_of_child_merge)
next
  case False
  with assms have m: "map_of (loadLocalLeaves st) leaveId = Some old"
    by (simp add: stored_application_def stored_leaves_def)
  have k: "leaveId \<in> fst ` set (loadLocalLeaves st)" by (rule map_of_Some_key[OF m])
  from m have r: "dbReady st" by (auto simp: loadLocalLeaves_def split: if_splits)
  have w: "write_status_update p leaveId updates st
           = st\<lparr> localLeaves := Some (child_merge leaveId updates (loadLocalLeaves st)) \<rparr>"
    using False k r by (simp add: write_status_update_def saveLocalLeaves_def Let_def)
  show ?thesis
    using False m r assms(1)
    by (simp add: w path_simps stored_application_def stored_leaves_def loadLocalLeaves_def
        map_of_child_merge)
qed



lemma reject_stored:
  assumes "find_application leaveId st = Some leave"
    and "stored_application leaveId st = Some old"
  shows "stored_application leaveId (rejectLeave now user True leaveId st)
           = Some (old ++ [''status'' \<mapsto> Prim (JStr ''rejected''),
                ''rejectedBy'' \<mapsto> Prim (JStr (case user of Some email \<Rightarrow> email | None \<Rightarrow> ''unknown'')),
                ''rejectedAt'' \<mapsto> Prim (JNum now)])"
proof -
  from assms(2) obtain p where p: "getLeaveApplicationsPath st = Some p"
    by (auto simp: stored_application_def split: option.splits)
  show ?thesis
    using assms(1) p stored_after_status_update[OF p assms(2)]
    by (simp add: rejectLeave_def stored_application_simps Let_def)
qed


text \<open>
  After \<open>loadLeaveApplications\<close> the loaded list is in step with the store: an
  application found in the list under an id is the stored application of that id with
  the id added, so it shows the stored status.  (One child per key; the applications
  \<open>submitLeaveApplication\<close> writes carry no \<open>id\<close> field of their own.)
\<close>

lemma loaded_list_in_step:
  assumes "getLeaveApplicationsPath st0 = Some p"
    and "distinct (map fst (stored_leaves p st0))"
    and "\<forall>(k, v) \<in> set (stored_leaves p st0). v ''id'' = None"
    and "find_application leaveId (loadLeaveApplications st0) = Some leave"
  shows "\<exists>old. stored_application leaveId (loadLeaveApplications st0) = Some old
           \<and> leave = [''id'' \<mapsto> Prim (JStr leaveId)] ++ old
           \<and> leave ''status'' = old ''status''"
proof -
  let ?g = "\<lambda>(k, v). [''id'' \<mapsto> Prim (JStr k)] ++ v"
  have apps: "applications (loadLeaveApplications st0)
              = sort_key (\<lambda>l. - submittedAt_of l) (map ?g (stored_leaves p st0))"
    using assms(1) by (simp add: loadLeaveApplications_def)
  from assms(4) have "leave \<in> set (applications (loadLeaveApplications st0))"
    and i: "leave ''id'' = Some (Prim (JStr leaveId))"
    by (auto simp: find_application_def find_Some_iff)
  then have "leave \<in> ?g ` set (stored_leaves p st0)" by (simp add: apps)
  then obtain k v where kv: "(k, v) \<in> set (stored_leaves p st0)"
    and l: "leave = [''id'' \<mapsto> Prim (JStr k)] ++ v"
    by auto
  from assms(3) kv have n: "v ''id'' = None" by auto
  from i l n have k: "k = leaveId" by (simp add: map_add_def)
  have "map_of (stored_leaves p st0) leaveId = Some v"
    using assms(2) kv k by simp
  then have "stored_application leaveId (loadLeaveApplications st0) = Some v"
    unfolding stored_application_simps using assms(1) by (simp add: stored_application_def)
  moreover have "leave ''status'' = v ''status''"
    by (simp add: l map_add_def split: option.splits)
  ultimately show ?thesis using l k by blast
qed


lemma leave_sys_facts:
  "getLeaveApplicationsPath leave_sys = Some leave_path"
  "find_application ''leave_1000'' leave_sys = Some ([''id'' \<mapsto> Prim (JStr ''leave_1000'')] ++ leave_pending)"
  "stored_application ''leave_1000'' leave_sys = Some leave_pending"
  "alerts leave_sys = []"
proof -
  show p: "getLeaveApplicationsPath leave_sys = Some leave_path"
    by (simp add: leave_sys_def path_simps)
       (simp add: getLeaveApplicationsPath_def leave_app_state_def leave_path_def show_int_def
          digit_char_def)
  have s: "stored_leaves leave_path leave_sys = [(''leave_1000'', leave_pending)]"
    by (simp add: leave_sys_def stored_leaves_simps) (simp add: stored_leaves_def)
  show "stored_application ''leave_1000'' leave_sys = Some leave_pending"
    by (simp add: stored_application_def p s)
  have "applications leave_sys = [[''id'' \<mapsto> Prim (JStr ''leave_1000'')] ++ leave_pending]"
    using p[unfolded leave_sys_def path_simps] s[unfolded leave_sys_def stored_leaves_simps]
    by (simp add: leave_sys_def loadLeaveApplications_def)
  then show "find_application ''leave_1000'' leave_sys
             = Some ([''id'' \<mapsto> Prim (JStr ''leave_1000'')] ++ leave_pending)"
    by (simp add: find_application_def leave_pending_def map_add_def)
  show "alerts leave_sys = []"
    by (simp add: leave_sys_def loadLeaveApplications_def split: option.splits)
qed



text \<open>
  A list that is out of step.  The page loaded the application while it was pending and
  still offers reject; another client has approved it since.  \<open>rejectLeave\<close> turns
  the stored \<open>approved\<close> into \<open>rejected\<close>.
\<close>

lemma stale_list_reject_overwrites_approved:
  "find_application ''leave_1000'' leave_sys_stale
     = Some ([''id'' \<mapsto> Prim (JStr ''leave_1000'')] ++ leave_pending)
   \<and> RejectButton \<in> set (actionButtons ([''id'' \<mapsto> Prim (JStr ''leave_1000'')] ++ leave_pending))
   \<and> map_option (\<lambda>l. l ''status'') (stored_application ''leave_1000'' leave_sys_stale)
       = Some (Some (Prim (JStr ''approved'')))
   \<and> map_option (\<lambda>l. (l ''status'', l ''approvedBy'', l ''rejectedBy''))
         (stored_application ''leave_1000''
            (rejectLeave 6000 (Some ''hod2@x.org'') True ''leave_1000'' leave_sys_stale))
       = Some (Some (Prim (JStr ''rejected'')), Some (Prim (JStr ''hod@x.org'')),
               Some (Prim (JStr ''hod2@x.org'')))"
proof -
  note f = leave_sys_facts
  have p: "getLeaveApplicationsPath leave_sys_stale = Some leave_path"
    using f(1) by (simp add: leave_sys_stale_def path_simps)
  have a: "find_application ''leave_1000'' leave_sys_stale
     = Some ([''id'' \<mapsto> Prim (JStr ''leave_1000'')] ++ leave_pending)"
    using f(2) by (simp add: leave_sys_stale_def find_application_def)
  have u: "useCloud leave_sys_stale"
    by (simp add: leave_sys_stale_def leave_sys_def loadLeaveApplications_def split: option.splits)
  have s: "stored_application ''leave_1000'' leave_sys_stale = Some leave_approved"
    using u by (simp add: stored_application_def p stored_leaves_def) (simp add: leave_sys_stale_def)
  have b: "RejectButton \<in> set (actionButtons ([''id'' \<mapsto> Prim (JStr ''leave_1000'')] ++ leave_pending))"
    by (simp add: actionButtons_def leave_pending_def map_add_def)
  show ?thesis
    using reject_stored[OF a s, of 6000 "Some ''hod2@x.org''"] a b s
    by (simp add: leave_approved_def leave_pending_def map_add_def)
qed


end
